theory Spec2Isabelle
  imports Complex_Main "HOL-Library.Sublist"
begin

section \<open>The kmsg MCP bridge (tools/kmsg-mcp.py)\<close>

text \<open>
  A shallow embedding of the stdio server in \<^verbatim>\<open>tools/kmsg-mcp.py\<close>: the process
  runner \<^verbatim>\<open>KmsgRunner.run\<close>, the error classifier, the three tool handlers, the
  request dispatcher and the Content-Length framing.

  Text (Python's \<^verbatim>\<open>str\<close>) is kept as a list of bytes (\<^typ>\<open>string\<close>): the UTF-8
  encoding of its code points, a lone surrogate included (three bytes starting with
  \<open>0xED\<close>). \<^verbatim>\<open>encode("utf-8")\<close> and \<^verbatim>\<open>decode("utf-8")\<close> are the identity on
  strict UTF-8 and raise on anything else. \<^verbatim>\<open>strip\<close> removes every character Python
  counts as white space, substring search on the bytes agrees with search on code points,
  and \<^verbatim>\<open>lower\<close> is written out for the ASCII letters.
  What the program only observes from outside (the operating system, the file system,
  the JSON codec, \<^verbatim>\<open>int\<close> on text that is not plain digits) is a parameter of the
  model, the record \<open>env\<close>.
\<close>

subsection \<open>JSON values and Python exceptions\<close>

datatype pyfloat = FloatVal rat | FloatInf bool | FloatNaN

datatype json =
    JNull
  | JBool bool
  | JInt int
  | JFloat pyfloat
  | JStr string
  | JArr "json list"
  | JObj "(string \<times> json) list"

text \<open>
  The exception classes that can travel through the modelled code. \<open>MCPError\<close> carries
  its code and message, \<open>OSError\<close> the text \<^verbatim>\<open>str(exc)\<close> that \<^verbatim>\<open>run\<close> copies into
  \<^verbatim>\<open>stderr\<close>. \<open>ValueError\<close> stands for the class with its subclasses
  (UnicodeEncodeError, UnicodeDecodeError): the program never tells them apart.
\<close>

datatype exn =
    MCPError int string
  | OSError string
  | ValueError
  | TypeError
  | OverflowError
  | MemoryError
  | IndexError
  | AttributeError
  | TimeoutExpired

subsection \<open>Dictionaries\<close>

text \<open>A \<^verbatim>\<open>dict\<close> is an association list read by its first entry for a key.\<close>

definition dict_get :: "(string \<times> json) list \<Rightarrow> string \<Rightarrow> json option" where
  "dict_get d k = map_of d k"

definition dict_get_default :: "(string \<times> json) list \<Rightarrow> string \<Rightarrow> json \<Rightarrow> json" where
  "dict_get_default d k dflt = (case map_of d k of None \<Rightarrow> dflt | Some v \<Rightarrow> v)"

subsection \<open>String methods\<close>

definition LF :: char where "LF = CHR 0x0A"
definition CR :: char where "CR = CHR 0x0D"
definition NUL :: char where "NUL = CHR 0x00"

text \<open>
  The characters \<^verbatim>\<open>str.strip\<close> removes, each as its UTF-8 bytes: U+0009 to U+000D,
  U+001C to U+0020, U+0085, U+00A0, U+1680, U+2000 to U+200A, U+2028, U+2029, U+202F,
  U+205F and U+3000.
\<close>

definition whitespace :: "string list" where
  "whitespace =
     [[CHR 0x09], [CHR 0x0A], [CHR 0x0B], [CHR 0x0C], [CHR 0x0D], [CHR 0x1C], [CHR 0x1D],
      [CHR 0x1E], [CHR 0x1F], [CHR 0x20], [CHR 0xC2, CHR 0x85], [CHR 0xC2, CHR 0xA0],
      [CHR 0xE1, CHR 0x9A, CHR 0x80], [CHR 0xE2, CHR 0x80, CHR 0x80],
      [CHR 0xE2, CHR 0x80, CHR 0x81], [CHR 0xE2, CHR 0x80, CHR 0x82],
      [CHR 0xE2, CHR 0x80, CHR 0x83], [CHR 0xE2, CHR 0x80, CHR 0x84],
      [CHR 0xE2, CHR 0x80, CHR 0x85], [CHR 0xE2, CHR 0x80, CHR 0x86],
      [CHR 0xE2, CHR 0x80, CHR 0x87], [CHR 0xE2, CHR 0x80, CHR 0x88],
      [CHR 0xE2, CHR 0x80, CHR 0x89], [CHR 0xE2, CHR 0x80, CHR 0x8A],
      [CHR 0xE2, CHR 0x80, CHR 0xA8], [CHR 0xE2, CHR 0x80, CHR 0xA9],
      [CHR 0xE2, CHR 0x80, CHR 0xAF], [CHR 0xE2, CHR 0x81, CHR 0x9F],
      [CHR 0xE3, CHR 0x80, CHR 0x80]]"

text \<open>Dropping from the front of \<open>s\<close> as long as one of the tokens starts it.\<close>

function lstrip_tokens :: "string list \<Rightarrow> string \<Rightarrow> string" where
  "lstrip_tokens toks s =
     (case find (\<lambda>t. t \<noteq> [] \<and> prefix t s) toks of
        None \<Rightarrow> s
      | Some t \<Rightarrow> lstrip_tokens toks (drop (length t) s))"
  by pat_completeness auto
termination
proof (relation "measure (\<lambda>(toks, s). length s)")
  show "wf (measure (\<lambda>(toks, s). length s))"
    by simp
next
  fix toks :: "string list" and s t :: string
  assume "find (\<lambda>t. t \<noteq> [] \<and> prefix t s) toks = Some t"
  then have "t \<noteq> []" and "prefix t s"
    by (auto simp: find_Some_iff)
  then have "length (drop (length t) s) < length s"
    by (cases t; cases s) (auto simp: prefix_def)
  then show "((toks, drop (length t) s), (toks, s)) \<in> measure (\<lambda>(toks, s). length s)"
    by simp
qed

declare lstrip_tokens.simps [simp del]

definition py_strip :: "string \<Rightarrow> string" where
  "py_strip s = rev (lstrip_tokens (map rev whitespace) (rev (lstrip_tokens whitespace s)))"

text \<open>
  Strict UTF-8, as \<^verbatim>\<open>bytes.decode("utf-8")\<close> accepts it and \<^verbatim>\<open>str.encode("utf-8")\<close>
  produces it: no overlong form, no surrogate, nothing above U+10FFFF.
\<close>

definition byte_in :: "char \<Rightarrow> nat \<Rightarrow> nat \<Rightarrow> bool" where
  "byte_in c lo hi = (lo \<le> (of_char c :: nat) \<and> (of_char c :: nat) \<le> hi)"

fun utf8_valid :: "string \<Rightarrow> bool" where
  "utf8_valid [] = True"
| "utf8_valid [a] = byte_in a 0x00 0x7F"
| "utf8_valid [a, b] =
     (if byte_in a 0x00 0x7F then utf8_valid [b]
      else byte_in a 0xC2 0xDF \<and> byte_in b 0x80 0xBF)"
| "utf8_valid [a, b, c] =
     (if byte_in a 0x00 0x7F then utf8_valid [b, c]
      else if byte_in a 0xC2 0xDF then byte_in b 0x80 0xBF \<and> utf8_valid [c]
      else (byte_in a 0xE0 0xE0 \<and> byte_in b 0xA0 0xBF \<or>
            byte_in a 0xE1 0xEC \<and> byte_in b 0x80 0xBF \<or>
            byte_in a 0xED 0xED \<and> byte_in b 0x80 0x9F \<or>
            byte_in a 0xEE 0xEF \<and> byte_in b 0x80 0xBF) \<and> byte_in c 0x80 0xBF)"
| "utf8_valid (a # b # c # d # rest) =
     (if byte_in a 0x00 0x7F then utf8_valid (b # c # d # rest)
      else if byte_in a 0xC2 0xDF then byte_in b 0x80 0xBF \<and> utf8_valid (c # d # rest)
      else if byte_in a 0xE0 0xEF then
        (byte_in a 0xE0 0xE0 \<and> byte_in b 0xA0 0xBF \<or>
         byte_in a 0xE1 0xEC \<and> byte_in b 0x80 0xBF \<or>
         byte_in a 0xED 0xED \<and> byte_in b 0x80 0x9F \<or>
         byte_in a 0xEE 0xEF \<and> byte_in b 0x80 0xBF) \<and> byte_in c 0x80 0xBF \<and>
        utf8_valid (d # rest)
      else (byte_in a 0xF0 0xF0 \<and> byte_in b 0x90 0xBF \<or>
            byte_in a 0xF1 0xF3 \<and> byte_in b 0x80 0xBF \<or>
            byte_in a 0xF4 0xF4 \<and> byte_in b 0x80 0x8F) \<and>
           byte_in c 0x80 0xBF \<and> byte_in d 0x80 0xBF \<and> utf8_valid rest)"

definition encode_utf8 :: "string \<Rightarrow> exn + string" where
  "encode_utf8 s = (if utf8_valid s then Inr s else Inl ValueError)"

definition decode_utf8 :: "string \<Rightarrow> exn + string" where
  "decode_utf8 bs = (if utf8_valid bs then Inr bs else Inl ValueError)"

text \<open>
  Text that \<^verbatim>\<open>os.fsencode\<close> cannot turn into bytes for an argument vector: it holds a
  surrogate outside U+DC80 to U+DCFF (the range the \<^verbatim>\<open>surrogateescape\<close> handler maps
  back to bytes), that is, \<open>0xED\<close> followed by a byte in \<open>A0..B1\<close> or \<open>B4..BF\<close>.
\<close>

fun fs_unencodable :: "string \<Rightarrow> bool" where
  "fs_unencodable (a # b # rest) =
     (byte_in a 0xED 0xED \<and> (byte_in b 0xA0 0xB1 \<or> byte_in b 0xB4 0xBF) \<or>
      fs_unencodable (b # rest))"
| "fs_unencodable _ = False"

definition lower_char :: "char \<Rightarrow> char" where
  "lower_char c = (let n = (of_char c :: nat) in if 65 \<le> n \<and> n \<le> 90 then char_of (n + 32) else c)"

definition py_lower :: "string \<Rightarrow> string" where
  "py_lower s = map lower_char s"

fun py_contains :: "string \<Rightarrow> string \<Rightarrow> bool" where
  "py_contains needle [] = (needle = [])"
| "py_contains needle (c # cs) = (prefix needle (c # cs) \<or> py_contains needle cs)"

fun py_partition :: "char \<Rightarrow> string \<Rightarrow> string \<times> string \<times> string" where
  "py_partition sep [] = ([], [], [])"
| "py_partition sep (c # cs) =
     (if c = sep then ([], [sep], cs)
      else (case py_partition sep cs of
              (key, s, v) \<Rightarrow> if s = [] then (c # cs, [], []) else (c # key, s, v)))"

subsection \<open>Numbers and text\<close>

definition digit_char :: "nat \<Rightarrow> char" where
  "digit_char d = char_of (48 + d)"

fun str_nat :: "nat \<Rightarrow> string" where
  "str_nat n = (if n < 10 then [digit_char n] else str_nat (n div 10) @ [digit_char (n mod 10)])"

declare str_nat.simps [simp del]

definition str_int :: "int \<Rightarrow> string" where
  "str_int i = (if i < 0 then CHR ''-'' # str_nat (nat (- i)) else str_nat (nat i))"

definition is_digit :: "char \<Rightarrow> bool" where
  "is_digit c = (let n = (of_char c :: nat) in 48 \<le> n \<and> n \<le> 57)"

definition digit_val :: "char \<Rightarrow> nat" where
  "digit_val c = of_char c - 48"

text \<open>The number a string of digits denotes, read from the left with \<open>acc\<close> before it.\<close>

definition digits_value :: "nat \<Rightarrow> string \<Rightarrow> nat" where
  "digits_value acc ds = foldl (\<lambda>a c. a * 10 + digit_val c) acc ds"

fun py_bool :: "json \<Rightarrow> bool" where
  "py_bool JNull = False"
| "py_bool (JBool b) = b"
| "py_bool (JInt n) = (n \<noteq> 0)"
| "py_bool (JFloat (FloatVal r)) = (r \<noteq> 0)"
| "py_bool (JFloat _) = True"
| "py_bool (JStr s) = (s \<noteq> [])"
| "py_bool (JArr xs) = (xs \<noteq> [])"
| "py_bool (JObj kvs) = (kvs \<noteq> [])"

subsection \<open>The world outside the program\<close>

text \<open>
  A child process as \<^verbatim>\<open>subprocess\<close> shows it: how long it runs, what it has written
  when it exits by itself, and what is drained from its pipes when it is killed at the
  deadline.
\<close>

record process =
  finishes_after :: rat
  exit_status :: int
  final_stdout :: string
  final_stderr :: string
  killed_stdout :: string
  killed_stderr :: string
  killed :: bool

datatype spawned = SpawnRaises exn | Spawned process

text \<open>What the program asks of the outside, in order: the history of a call.\<close>

datatype event = Run "string list" rat | IsFile string

record env =
  spawn :: "event list \<Rightarrow> string list \<Rightarrow> spawned"
  elapsed_ms :: "event list \<Rightarrow> nat"
  path_isfile :: "string \<Rightarrow> bool"
  json_loads :: "string \<Rightarrow> json option"
  json_dumps :: "json \<Rightarrow> string"
  json_dumps_pretty :: "json \<Rightarrow> string"
  py_repr :: "json \<Rightarrow> string"
  int_text :: "string \<Rightarrow> int option"
  decode_replace :: "string \<Rightarrow> string"
  short_read :: "nat \<Rightarrow> string \<Rightarrow> exn option"

text \<open>
  \<^verbatim>\<open>str(v)\<close>: a string is itself; the text of a float, a list or a dict is the
  runtime's (\<open>py_repr\<close>).
\<close>

definition py_str :: "env \<Rightarrow> json \<Rightarrow> string" where
  "py_str e v =
     (case v of
        JStr s \<Rightarrow> s
      | JNull \<Rightarrow> ''None''
      | JBool b \<Rightarrow> (if b then ''True'' else ''False'')
      | JInt n \<Rightarrow> str_int n
      | _ \<Rightarrow> py_repr e v)"

text \<open>
  \<^verbatim>\<open>int(s)\<close> on text. A string of one to 640 ASCII digits is always read as the
  number it spells (640 is the least limit Python lets \<^verbatim>\<open>int_max_str_digits\<close> be
  set to); what \<^verbatim>\<open>int\<close> does with any other text (signs, underscores, white space,
  digits of other scripts, longer strings) is the runtime's (\<open>int_text\<close>, \<open>None\<close> for
  ValueError).
\<close>

definition py_int_text :: "env \<Rightarrow> string \<Rightarrow> int option" where
  "py_int_text e s =
     (if s \<noteq> [] \<and> list_all is_digit s \<and> length s \<le> 640 then Some (int (digits_value 0 s))
      else int_text e s)"

fun py_int :: "env \<Rightarrow> json \<Rightarrow> exn + int" where
  "py_int e JNull = Inl TypeError"
| "py_int e (JBool b) = Inr (if b then 1 else 0)"
| "py_int e (JInt n) = Inr n"
| "py_int e (JFloat (FloatVal r)) = Inr (if 0 \<le> r then \<lfloor>r\<rfloor> else \<lceil>r\<rceil>)"
| "py_int e (JFloat (FloatInf _)) = Inl OverflowError"
| "py_int e (JFloat FloatNaN) = Inl ValueError"
| "py_int e (JStr s) = (case py_int_text e s of None \<Rightarrow> Inl ValueError | Some n \<Rightarrow> Inr n)"
| "py_int e (JArr _) = Inl TypeError"
| "py_int e (JObj _) = Inl TypeError"

text \<open>
  \<^verbatim>\<open>bytes.decode("utf-8", errors="replace")\<close>: the identity on strict UTF-8; where
  bytes are replaced by U+FFFD the result is the runtime's.
\<close>

definition decode_utf8_replace :: "env \<Rightarrow> string \<Rightarrow> string" where
  "decode_utf8_replace e bs = (if utf8_valid bs then bs else decode_replace e bs)"

subsection \<open>KmsgRunner.run\<close>

record CommandResult =
  returncode :: int
  stdout :: string
  stderr :: string
  latency_ms :: int
  timed_out :: bool

text \<open>
  \<^verbatim>\<open>subprocess.Popen(args, ...)\<close>. Before anything is started an empty argument
  vector raises IndexError, and an argument that cannot be passed to \<^verbatim>\<open>exec\<close> raises
  ValueError: one with an embedded NUL, or one that \<^verbatim>\<open>os.fsencode\<close> rejects
  (UnicodeEncodeError). Otherwise the outcome is the operating system's: an exception
  (OSError when the program cannot be executed) or a running process.
\<close>

definition argv_rejected :: "string list \<Rightarrow> bool" where
  "argv_rejected args = list_ex (\<lambda>a. NUL \<in> set a \<or> fs_unencodable a) args"

definition Popen :: "env \<Rightarrow> event list \<Rightarrow> string list \<Rightarrow> exn + process" where
  "Popen e tr args =
     (if args = [] then Inl IndexError
      else if argv_rejected args then Inl ValueError
      else (case spawn e tr args of
              SpawnRaises exc \<Rightarrow> Inl exc
            | Spawned p \<Rightarrow> Inr (p\<lparr>killed := False\<rparr>)))"

definition communicate :: "process \<Rightarrow> rat option \<Rightarrow> exn + (string \<times> string)" where
  "communicate p timeout =
     (if killed p then Inr (killed_stdout p, killed_stderr p)
      else (case timeout of
              None \<Rightarrow> Inr (final_stdout p, final_stderr p)
            | Some t \<Rightarrow>
                if finishes_after p \<le> t then Inr (final_stdout p, final_stderr p)
                else Inl TimeoutExpired))"

definition kill :: "process \<Rightarrow> process" where
  "kill p = p\<lparr>killed := True\<rparr>"

definition run :: "env \<Rightarrow> event list \<Rightarrow> string list \<Rightarrow> rat \<Rightarrow> (exn + CommandResult) \<times> event list" where
  "run e tr args timeout_sec =
     (let tr' = tr @ [Run args timeout_sec];
          latency = int (elapsed_ms e tr')
      in (case Popen e tr args of
            Inl exc \<Rightarrow>
              (case exc of
                 OSError msg \<Rightarrow>
                   Inr \<lparr>returncode = 127, stdout = [], stderr = msg,
                        latency_ms = latency, timed_out = False\<rparr>
               | _ \<Rightarrow> Inl exc)
          | Inr proc \<Rightarrow>
              (case communicate proc (Some timeout_sec) of
                 Inr (out, err) \<Rightarrow>
                   Inr \<lparr>returncode = exit_status proc, stdout = out, stderr = err,
                        latency_ms = latency, timed_out = False\<rparr>
               | Inl exc \<Rightarrow>
                   (case exc of
                      TimeoutExpired \<Rightarrow>
                        (case communicate (kill proc) None of
                           Inr (out, err) \<Rightarrow>
                             Inr \<lparr>returncode = 124, stdout = out, stderr = err,
                                  latency_ms = latency, timed_out = True\<rparr>
                         | Inl exc' \<Rightarrow> Inl exc')
                    | _ \<Rightarrow> Inl exc)),
          tr'))"

subsection \<open>The server object\<close>

record server =
  kmsg_bin :: string
  shutdown :: bool
  initialized :: bool
  default_deep_recovery :: bool
  default_trace_ax :: bool
  server_version :: string

definition check_ready :: "server \<Rightarrow> env \<Rightarrow> event list \<Rightarrow> (exn + bool \<times> (string \<times> json) list) \<times> event list" where
  "check_ready srv e tr =
     (case run e tr [kmsg_bin srv, ''--version''] 2 of
        (Inl exc, tr1) \<Rightarrow> (Inl exc, tr1)
      | (Inr version, tr1) \<Rightarrow>
          if returncode version \<noteq> 0 then
            (Inr (False,
               [(''stage'', JStr ''version''),
                (''message'', JStr ''kmsg binary not executable''),
                (''stdout'', JStr (stdout version)),
                (''stderr'', JStr (stderr version)),
                (''kmsg_bin'', JStr (kmsg_bin srv))]), tr1)
          else
            (case run e tr1 [kmsg_bin srv, ''status''] 4 of
               (Inl exc, tr2) \<Rightarrow> (Inl exc, tr2)
             | (Inr status, tr2) \<Rightarrow>
                 if returncode status \<noteq> 0 then
                   (Inr (False,
                      [(''stage'', JStr ''status''),
                       (''message'', JStr ''kmsg status check failed''),
                       (''stdout'', JStr (stdout status)),
                       (''stderr'', JStr (stderr status)),
                       (''kmsg_bin'', JStr (kmsg_bin srv))]), tr2)
                 else
                   (Inr (True,
                      [(''kmsg_bin'', JStr (kmsg_bin srv)),
                       (''version'', JStr (py_strip (stdout version)))]), tr2)))"

definition json_rpc_result :: "json \<Rightarrow> json \<Rightarrow> json" where
  "json_rpc_result req_id result =
     JObj [(''jsonrpc'', JStr ''2.0''), (''id'', req_id), (''result'', result)]"

definition make_text_content :: "string \<Rightarrow> json" where
  "make_text_content text = JArr [JObj [(''type'', JStr ''text''), (''text'', JStr text)]]"

subsection \<open>Error envelopes and the classifier\<close>

definition error_payload :: "string \<Rightarrow> string \<Rightarrow> string \<Rightarrow> string \<Rightarrow> string \<Rightarrow> int \<Rightarrow> json" where
  "error_payload code message hint raw_stdout raw_stderr latency =
     JObj [(''ok'', JBool False),
           (''error'', JObj [(''code'', JStr code),
                             (''message'', JStr message),
                             (''hint'', JStr hint),
                             (''raw_stdout'', JStr raw_stdout),
                             (''raw_stderr'', JStr raw_stderr)]),
           (''meta'', JObj [(''latency_ms'', JInt latency)])]"

text \<open>The Korean name of the Accessibility pane, in UTF-8.\<close>

definition accessibility_ko :: string where
  "accessibility_ko =
     [CHR 0xEC, CHR 0x86, CHR 0x90, CHR 0xEC, CHR 0x89, CHR 0xAC, CHR 0xEC, CHR 0x9A, CHR 0xB4,
      CHR 0x20, CHR 0xEC, CHR 0x82, CHR 0xAC, CHR 0xEC, CHR 0x9A, CHR 0xA9]"

definition extract_error_code :: "string \<Rightarrow> string" where
  "extract_error_code combined_text =
     (let lowered = py_lower combined_text in
      if py_contains ''no such file or directory'' lowered \<or> py_contains ''not found'' lowered
        then ''KMSG_BIN_NOT_FOUND''
      else if py_contains ''WINDOW_NOT_READY'' combined_text then ''KAKAO_WINDOW_UNAVAILABLE''
      else if py_contains ''SEARCH_MISS'' combined_text then ''CHAT_NOT_FOUND''
      else if py_contains ''Accessibility'' combined_text \<or> py_contains accessibility_ko combined_text
        then ''ACCESSIBILITY_PERMISSION_DENIED''
      else ''UNKNOWN_EXEC_FAILURE'')"

definition map_hint :: "string \<Rightarrow> string" where
  "map_hint code =
     (if code = ''KMSG_BIN_NOT_FOUND'' then ''Set a valid KMSG_BIN path or install kmsg into PATH.''
      else if code = ''KAKAO_WINDOW_UNAVAILABLE''
        then ''KakaoTalk window was not ready. Open KakaoTalk and retry (or enable deep_recovery).''
      else if code = ''CHAT_NOT_FOUND''
        then ''Chat was not found in search results. Verify chat name spacing and visibility.''
      else if code = ''ACCESSIBILITY_PERMISSION_DENIED''
        then ''Grant Accessibility permission in System Settings > Privacy & Security > Accessibility.''
      else ''Check raw_stdout/raw_stderr and rerun with trace_ax=true for details.'')"

subsection \<open>The tool handlers\<close>

text \<open>
  The optional flags of a command line, in the order the handlers append them
  (\<^verbatim>\<open>--deep-recovery\<close>, \<^verbatim>\<open>--keep-window\<close>, \<^verbatim>\<open>--trace-ax\<close>).
\<close>

definition flag_args :: "bool \<Rightarrow> bool \<Rightarrow> bool \<Rightarrow> string list" where
  "flag_args deep_recovery keep_window trace_ax =
     (if deep_recovery then [''--deep-recovery''] else []) @
     (if keep_window then [''--keep-window''] else []) @
     (if trace_ax then [''--trace-ax''] else [])"

text \<open>
  The end of \<^verbatim>\<open>_call_kmsg_read\<close> (from \<^verbatim>\<open>json.loads(first.stdout)\<close> on), which both
  a successful first run and a successful retry reach. \<^verbatim>\<open>payload.get\<close> on a JSON
  document that is not an object raises AttributeError.
\<close>

definition read_response :: "env \<Rightarrow> string \<Rightarrow> bool \<Rightarrow> CommandResult \<Rightarrow> exn + json" where
  "read_response e chat trace_ax first =
     (case json_loads e (stdout first) of
        None \<Rightarrow>
          Inr (error_payload ''INVALID_JSON_OUTPUT''
                 ''kmsg returned non-JSON output for read --json''
                 ''Run kmsg read manually and confirm JSON-only stdout.''
                 (stdout first) (stderr first) (latency_ms first))
      | Some payload \<Rightarrow>
          (case payload of
             JObj kv \<Rightarrow>
               Inr (JObj [(''ok'', JBool True),
                          (''chat'', dict_get_default kv ''chat'' (JStr chat)),
                          (''fetched_at'', dict_get_default kv ''fetched_at'' JNull),
                          (''count'', dict_get_default kv ''count'' (JInt 0)),
                          (''messages'', dict_get_default kv ''messages'' (JArr [])),
                          (''meta'', JObj ((''latency_ms'', JInt (latency_ms first)) #
                             (if trace_ax \<and> py_strip (stderr first) \<noteq> []
                              then [(''stderr_trace'', JStr (stderr first))] else [])))])
           | _ \<Rightarrow> Inl AttributeError))"

definition call_kmsg_read :: "server \<Rightarrow> env \<Rightarrow> event list \<Rightarrow> (string \<times> json) list \<Rightarrow> (exn + json) \<times> event list" where
  "call_kmsg_read srv e tr arguments =
     (let chat = py_strip (py_str e (dict_get_default arguments ''chat'' (JStr [])))
      in if chat = [] then
           (Inr (error_payload ''INVALID_ARGUMENT'' ''chat is required''
                   ''Provide a non-empty chat name.'' [] [] 0), tr)
         else
           (case py_int e (dict_get_default arguments ''limit'' (JInt 20)) of
              Inl exc \<Rightarrow>
                if exc = TypeError \<or> exc = ValueError then
                  (Inr (error_payload ''INVALID_ARGUMENT'' ''limit must be an integer''
                          ''Use integer range 1..100 for limit.'' [] [] 0), tr)
                else (Inl exc, tr)
            | Inr raw \<Rightarrow>
                (let limit = max 1 (min raw 100);
                     deep_recovery = py_bool (dict_get_default arguments ''deep_recovery''
                                               (JBool (default_deep_recovery srv)));
                     keep_window = py_bool (dict_get_default arguments ''keep_window'' (JBool False));
                     trace_ax = py_bool (dict_get_default arguments ''trace_ax''
                                          (JBool (default_trace_ax srv)));
                     cmd = [kmsg_bin srv, ''read'', chat, ''--json'', ''--limit'', str_int limit]
                           @ flag_args deep_recovery keep_window trace_ax;
                     timeout_sec = (if deep_recovery then 15 else 8)
                 in (case run e tr cmd timeout_sec of
                       (Inl exc, tr1) \<Rightarrow> (Inl exc, tr1)
                     | (Inr first, tr1) \<Rightarrow>
                         if timed_out first then
                           (Inr (error_payload ''PROCESS_TIMEOUT'' ''kmsg read timed out''
                                   ''Increase stability (keep KakaoTalk open/focused) and retry.''
                                   (stdout first) (stderr first) (latency_ms first)), tr1)
                         else if returncode first \<noteq> 0 then
                           (let code = extract_error_code (stdout first @ [LF] @ stderr first)
                            in if code = ''CHAT_NOT_FOUND'' \<and> \<not> deep_recovery then
                                 (case run e tr1 (cmd @ [''--deep-recovery'']) 15 of
                                    (Inl exc, tr2) \<Rightarrow> (Inl exc, tr2)
                                  | (Inr retry, tr2) \<Rightarrow>
                                      if returncode retry = 0 \<and> \<not> timed_out retry then
                                        (read_response e chat trace_ax retry, tr2)
                                      else
                                        (let retry_code =
                                               extract_error_code (stdout retry @ [LF] @ stderr retry)
                                         in (Inr (error_payload retry_code
                                                    ''kmsg read failed after deep-recovery retry''
                                                    (map_hint retry_code)
                                                    (stdout retry) (stderr retry) (latency_ms retry)),
                                             tr2)))
                               else
                                 (Inr (error_payload code ''kmsg read failed'' (map_hint code)
                                         (stdout first) (stderr first) (latency_ms first)), tr1))
                         else (read_response e chat trace_ax first, tr1)))))"

text \<open>
  What \<^verbatim>\<open>_call_kmsg_send\<close> and \<^verbatim>\<open>_call_kmsg_send_image\<close> both do once the command is
  run: the timeout envelope, the classified failure, or the success payload. \<open>what\<close> is
  the subcommand in the messages (\<^verbatim>\<open>send\<close> or \<^verbatim>\<open>send-image\<close>).
\<close>

definition send_response :: "string \<Rightarrow> string \<Rightarrow> bool \<Rightarrow> CommandResult \<Rightarrow> json" where
  "send_response what chat trace_ax r =
     (if timed_out r then
        error_payload ''PROCESS_TIMEOUT'' (''kmsg '' @ what @ '' timed out'')
          ''Retry after ensuring KakaoTalk is responsive.''
          (stdout r) (stderr r) (latency_ms r)
      else if returncode r \<noteq> 0 then
        (let code = extract_error_code (stdout r @ [LF] @ stderr r)
         in error_payload code (''kmsg '' @ what @ '' failed'') (map_hint code)
              (stdout r) (stderr r) (latency_ms r))
      else
        JObj [(''ok'', JBool True),
              (''chat'', JStr chat),
              (''sent'', JBool True),
              (''meta'', JObj ([(''latency_ms'', JInt (latency_ms r)), (''stdout'', JStr (stdout r))] @
                 (if trace_ax \<and> py_strip (stderr r) \<noteq> []
                  then [(''stderr_trace'', JStr (stderr r))] else [])))])"

definition call_kmsg_send :: "server \<Rightarrow> env \<Rightarrow> event list \<Rightarrow> (string \<times> json) list \<Rightarrow> (exn + json) \<times> event list" where
  "call_kmsg_send srv e tr arguments =
     (let chat = py_strip (py_str e (dict_get_default arguments ''chat'' (JStr [])));
          message = py_strip (py_str e (dict_get_default arguments ''message'' (JStr [])));
          confirm = py_bool (dict_get_default arguments ''confirm'' (JBool False))
      in if chat = [] \<or> message = [] then
           (Inr (error_payload ''INVALID_ARGUMENT'' ''chat and message are required''
                   ''Provide both chat and message.'' [] [] 0), tr)
         else if confirm then
           (Inr (error_payload ''CONFIRMATION_REQUIRED''
                   ''kmsg_send blocked because confirm=true requests pre-send confirmation''
                   ''Ask user for explicit approval, then call again with confirm=false (or omit confirm).''
                   [] [] 0), tr)
         else
           (let deep_recovery = py_bool (dict_get_default arguments ''deep_recovery''
                                          (JBool (default_deep_recovery srv)));
                keep_window = py_bool (dict_get_default arguments ''keep_window'' (JBool False));
                trace_ax = py_bool (dict_get_default arguments ''trace_ax''
                                     (JBool (default_trace_ax srv)));
                cmd = [kmsg_bin srv, ''send'', chat, message]
                      @ flag_args deep_recovery keep_window trace_ax;
                timeout_sec = (if deep_recovery then 18 else 10)
            in (case run e tr cmd timeout_sec of
                  (Inl exc, tr1) \<Rightarrow> (Inl exc, tr1)
                | (Inr r, tr1) \<Rightarrow> (Inr (send_response ''send'' chat trace_ax r), tr1))))"

definition call_kmsg_send_image :: "server \<Rightarrow> env \<Rightarrow> event list \<Rightarrow> (string \<times> json) list \<Rightarrow> (exn + json) \<times> event list" where
  "call_kmsg_send_image srv e tr arguments =
     (let chat = py_strip (py_str e (dict_get_default arguments ''chat'' (JStr [])));
          image_path = py_strip (py_str e (dict_get_default arguments ''image_path'' (JStr [])));
          confirm = py_bool (dict_get_default arguments ''confirm'' (JBool False))
      in if chat = [] \<or> image_path = [] then
           (Inr (error_payload ''INVALID_ARGUMENT'' ''chat and image_path are required''
                   ''Provide both chat and image_path.'' [] [] 0), tr)
         else if confirm then
           (Inr (error_payload ''CONFIRMATION_REQUIRED''
                   ''kmsg_send_image blocked because confirm=true requests pre-send confirmation''
                   ''Ask user for explicit approval, then call again with confirm=false (or omit confirm).''
                   [] [] 0), tr)
         else if \<not> path_isfile e image_path then
           (Inr (error_payload ''INVALID_ARGUMENT'' ''image_path must point to an existing file''
                   ''Provide a valid local image file path.'' [] [] 0), tr @ [IsFile image_path])
         else
           (let deep_recovery = py_bool (dict_get_default arguments ''deep_recovery''
                                          (JBool (default_deep_recovery srv)));
                keep_window = py_bool (dict_get_default arguments ''keep_window'' (JBool False));
                trace_ax = py_bool (dict_get_default arguments ''trace_ax''
                                     (JBool (default_trace_ax srv)));
                cmd = [kmsg_bin srv, ''send-image'', chat, image_path]
                      @ flag_args deep_recovery keep_window trace_ax;
                timeout_sec = (if deep_recovery then 20 else 12)
            in (case run e (tr @ [IsFile image_path]) cmd timeout_sec of
                  (Inl exc, tr1) \<Rightarrow> (Inl exc, tr1)
                | (Inr r, tr1) \<Rightarrow> (Inr (send_response ''send-image'' chat trace_ax r), tr1))))"

text \<open>
  \<^verbatim>\<open>_handle_tools_call\<close>. \<open>arguments\<close> is \<^verbatim>\<open>request.get("params", {})\<close>, any JSON
  value; \<^verbatim>\<open>.get\<close> on one that is not an object raises AttributeError. \<open>tool_result\<close> is
  the dict the function returns (its last statement).
\<close>

definition tool_result :: "env \<Rightarrow> json \<Rightarrow> exn + json" where
  "tool_result e result_obj =
     (case result_obj of
        JObj kv \<Rightarrow>
          Inr (JObj [(''content'', make_text_content (json_dumps_pretty e result_obj)),
                     (''isError'', JBool (\<not> py_bool (dict_get_default kv ''ok'' (JBool False)))),
                     (''structuredContent'', result_obj)])
      | _ \<Rightarrow> Inl AttributeError)"

definition handle_tools_call :: "server \<Rightarrow> env \<Rightarrow> event list \<Rightarrow> json \<Rightarrow> (exn + json) \<times> event list" where
  "handle_tools_call srv e tr arguments =
     (case arguments of
        JObj params \<Rightarrow>
          (let name = dict_get_default params ''name'' JNull;
               call_args = dict_get_default params ''arguments'' (JObj [])
           in (case call_args of
                 JObj args \<Rightarrow>
                   (let called =
                          (if name = JStr ''kmsg_read'' then call_kmsg_read srv e tr args
                           else if name = JStr ''kmsg_send'' then call_kmsg_send srv e tr args
                           else if name = JStr ''kmsg_send_image'' then call_kmsg_send_image srv e tr args
                           else (Inl (MCPError (- 32601) (''Unknown tool: '' @ py_str e name)), tr))
                    in (case called of
                          (Inl exc, tr1) \<Rightarrow> (Inl exc, tr1)
                        | (Inr result_obj, tr1) \<Rightarrow> (tool_result e result_obj, tr1)))
               | _ \<Rightarrow> (Inl (MCPError (- 32602) ''tool arguments must be an object''), tr)))
      | _ \<Rightarrow> (Inl AttributeError, tr))"

subsection \<open>The arguments of a call\<close>

text \<open>
  Names for what the handlers compute from \<open>arguments\<close> before they run anything:
  the trimmed chat, the flags with their defaults, and the command line and timeout of
  \<^verbatim>\<open>_call_kmsg_read\<close>. The theorems are stated with them.
\<close>

definition arg_chat :: "env \<Rightarrow> (string \<times> json) list \<Rightarrow> string" where
  "arg_chat e arguments = py_strip (py_str e (dict_get_default arguments ''chat'' (JStr [])))"

definition arg_deep_recovery :: "server \<Rightarrow> (string \<times> json) list \<Rightarrow> bool" where
  "arg_deep_recovery srv arguments =
     py_bool (dict_get_default arguments ''deep_recovery'' (JBool (default_deep_recovery srv)))"

definition arg_trace_ax :: "server \<Rightarrow> (string \<times> json) list \<Rightarrow> bool" where
  "arg_trace_ax srv arguments =
     py_bool (dict_get_default arguments ''trace_ax'' (JBool (default_trace_ax srv)))"

definition arg_flags :: "server \<Rightarrow> (string \<times> json) list \<Rightarrow> string list" where
  "arg_flags srv arguments =
     flag_args (arg_deep_recovery srv arguments)
       (py_bool (dict_get_default arguments ''keep_window'' (JBool False)))
       (arg_trace_ax srv arguments)"

definition read_cmd :: "server \<Rightarrow> env \<Rightarrow> (string \<times> json) list \<Rightarrow> int \<Rightarrow> string list" where
  "read_cmd srv e arguments raw =
     [kmsg_bin srv, ''read'', arg_chat e arguments, ''--json'', ''--limit'', str_int (max 1 (min raw 100))]
     @ arg_flags srv arguments"

definition read_timeout :: "server \<Rightarrow> (string \<times> json) list \<Rightarrow> rat" where
  "read_timeout srv arguments = (if arg_deep_recovery srv arguments then 15 else 8)"

text \<open>
  When \<^verbatim>\<open>_call_kmsg_read\<close> retries, given the outcome of the first run: the run
  returned a result, did not time out, exited nonzero, its output classifies as
  CHAT_NOT_FOUND, and deep recovery was off.
\<close>

definition retry_due :: "server \<Rightarrow> (string \<times> json) list \<Rightarrow> exn + CommandResult \<Rightarrow> bool" where
  "retry_due srv arguments outcome =
     (case outcome of
        Inl exc \<Rightarrow> False
      | Inr first \<Rightarrow>
          \<not> timed_out first \<and> returncode first \<noteq> 0 \<and>
          extract_error_code (stdout first @ [LF] @ stderr first) = ''CHAT_NOT_FOUND'' \<and>
          \<not> arg_deep_recovery srv arguments)"

text \<open>
  The \<^verbatim>\<open>ok\<close> field of a tool payload, when the payload is an object that has one
  with a boolean value.
\<close>

definition payload_ok :: "json \<Rightarrow> bool option" where
  "payload_ok payload =
     (case payload of
        JObj kv \<Rightarrow> (case dict_get kv ''ok'' of Some (JBool b) \<Rightarrow> Some b | _ \<Rightarrow> None)
      | _ \<Rightarrow> None)"

subsection \<open>The tool catalogue\<close>

definition bool_property :: "bool \<Rightarrow> string \<Rightarrow> json" where
  "bool_property dflt description =
     JObj [(''type'', JStr ''boolean''), (''default'', JBool dflt), (''description'', JStr description)]"

definition string_property :: "string \<Rightarrow> json" where
  "string_property description = JObj [(''type'', JStr ''string''), (''description'', JStr description)]"

definition tool_definitions :: "server \<Rightarrow> json" where
  "tool_definitions srv =
     JArr
      [JObj [(''name'', JStr ''kmsg_read''),
             (''description'', JStr ''Read recent KakaoTalk messages from a chat via kmsg.''),
             (''inputSchema'', JObj
                [(''type'', JStr ''object''),
                 (''properties'', JObj
                    [(''chat'', string_property ''Chat room or user name''),
                     (''limit'', JObj [(''type'', JStr ''integer''), (''minimum'', JInt 1),
                                       (''maximum'', JInt 100), (''default'', JInt 20)]),
                     (''deep_recovery'', bool_property (default_deep_recovery srv)
                        ''Enable deep recovery mode for window resolution''),
                     (''keep_window'', bool_property False ''Keep auto-opened KakaoTalk window''),
                     (''trace_ax'', bool_property (default_trace_ax srv) ''Include AX tracing logs'')]),
                 (''required'', JArr [JStr ''chat'']),
                 (''additionalProperties'', JBool False)])],
       JObj [(''name'', JStr ''kmsg_send''),
             (''description'', JStr
                ''Send a KakaoTalk message via kmsg. Default sends immediately; confirm=true triggers confirmation-required response.''),
             (''inputSchema'', JObj
                [(''type'', JStr ''object''),
                 (''properties'', JObj
                    [(''chat'', string_property ''Chat room or user name''),
                     (''message'', string_property ''Message body''),
                     (''confirm'', bool_property False
                        ''If true, do not send and return CONFIRMATION_REQUIRED''),
                     (''deep_recovery'', bool_property (default_deep_recovery srv)
                        ''Enable deep recovery mode for window resolution''),
                     (''keep_window'', bool_property False ''Keep auto-opened KakaoTalk window''),
                     (''trace_ax'', bool_property (default_trace_ax srv) ''Include AX tracing logs'')]),
                 (''required'', JArr [JStr ''chat'', JStr ''message'']),
                 (''additionalProperties'', JBool False)])],
       JObj [(''name'', JStr ''kmsg_send_image''),
             (''description'', JStr
                ''Send an image to a KakaoTalk chat via kmsg. Default sends immediately; confirm=true triggers confirmation-required response.''),
             (''inputSchema'', JObj
                [(''type'', JStr ''object''),
                 (''properties'', JObj
                    [(''chat'', string_property ''Chat room or user name''),
                     (''image_path'', string_property ''Path to the image file''),
                     (''confirm'', bool_property False
                        ''If true, do not send and return CONFIRMATION_REQUIRED''),
                     (''deep_recovery'', bool_property (default_deep_recovery srv)
                        ''Enable deep recovery mode for window resolution''),
                     (''keep_window'', bool_property False ''Keep auto-opened KakaoTalk window''),
                     (''trace_ax'', bool_property (default_trace_ax srv) ''Include AX tracing logs'')]),
                 (''required'', JArr [JStr ''chat'', JStr ''image_path'']),
                 (''additionalProperties'', JBool False)])]]"

subsection \<open>The dispatcher\<close>

definition PROTOCOL_VERSION :: string where
  "PROTOCOL_VERSION = ''2024-11-05''"

text \<open>
  \<^verbatim>\<open>_handle_request\<close>: the response (\<open>JNull\<close> is Python's \<^verbatim>\<open>None\<close>, no response) or
  the exception raised, with the server object and the history as the call leaves them.
\<close>

definition handle_request :: "server \<Rightarrow> env \<Rightarrow> event list \<Rightarrow> (string \<times> json) list \<Rightarrow> (exn + json) \<times> server \<times> event list" where
  "handle_request srv e tr request =
     (let method = dict_get_default request ''method'' JNull;
          req_id = dict_get_default request ''id'' JNull
      in if method = JStr ''initialize'' then
           (let srv1 = srv\<lparr>initialized := True\<rparr>
            in (case check_ready srv1 e tr of
                  (Inl exc, tr1) \<Rightarrow> (Inl exc, srv1, tr1)
                | (Inr (ready, detail), tr1) \<Rightarrow>
                    (let detail1 =
                           (if \<not> ready
                            then detail @ [(''note'', JStr ''MCP server started, but kmsg readiness check failed'')]
                            else detail)
                     in (Inr (json_rpc_result req_id
                           (JObj [(''protocolVersion'', JStr PROTOCOL_VERSION),
                                  (''capabilities'', JObj [(''tools'', JObj [])]),
                                  (''serverInfo'', JObj [(''name'', JStr ''openclaw-kmsg-mcp''),
                                                         (''version'', JStr (server_version srv1))]),
                                  (''instructions'', JStr
                                     (''Use kmsg_read for read-only operations. '' @
                                      ''Use kmsg_send and kmsg_send_image with confirm=false (or omitted) for sending. '' @
                                      ''Use confirm=true to intentionally require a confirmation step.'')),
                                  (''meta'', JObj [(''startup_check'', JObj detail1)])])),
                         srv1, tr1))))
         else if method = JStr ''notifications/initialized'' then (Inr JNull, srv, tr)
         else if method = JStr ''ping'' then (Inr (json_rpc_result req_id (JObj [])), srv, tr)
         else if \<not> initialized srv then (Inl (MCPError (- 32002) ''Server not initialized''), srv, tr)
         else if method = JStr ''tools/list'' then
           (Inr (json_rpc_result req_id (JObj [(''tools'', tool_definitions srv)])), srv, tr)
         else if method = JStr ''tools/call'' then
           (case handle_tools_call srv e tr (dict_get_default request ''params'' (JObj [])) of
              (Inl exc, tr1) \<Rightarrow> (Inl exc, srv, tr1)
            | (Inr result, tr1) \<Rightarrow> (Inr (json_rpc_result req_id result), srv, tr1))
         else if method = JStr ''shutdown'' then
           (Inr (json_rpc_result req_id (JObj [])), srv\<lparr>shutdown := True\<rparr>, tr)
         else if method = JStr ''exit'' then (Inr JNull, srv\<lparr>shutdown := True\<rparr>, tr)
         else (Inl (MCPError (- 32601) (''Method not found: '' @ py_str e method)), srv, tr))"

subsection \<open>Content-Length framing\<close>

text \<open>
  \<^verbatim>\<open>readline\<close> on the input: the bytes up to and including the first line feed, or
  all that is left; the empty line at end of stream. The second component is what remains
  of the stream.
\<close>

definition readline :: "string \<Rightarrow> string \<times> string" where
  "readline inp =
     (case dropWhile (\<lambda>c. c \<noteq> LF) inp of
        [] \<Rightarrow> (inp, [])
      | _ # rest \<Rightarrow> (takeWhile (\<lambda>c. c \<noteq> LF) inp @ [LF], rest))"

text \<open>The header loop of \<^verbatim>\<open>_read_message\<close>: \<open>None\<close> when the stream ends in it.\<close>

function read_headers :: "env \<Rightarrow> (string \<rightharpoonup> string) \<Rightarrow> string \<Rightarrow> (string \<rightharpoonup> string) option \<times> string" where
  "read_headers e headers inp =
     (let line = fst (readline inp); rest = snd (readline inp)
      in if line = [] then (None, rest)
         else if line = [CR, LF] \<or> line = [LF] then (Some headers, rest)
         else
           (let decoded = py_strip (decode_utf8_replace e line)
            in if decoded = [] then read_headers e headers rest
               else
                 (let key = fst (py_partition (CHR '':'') decoded);
                      sep = fst (snd (py_partition (CHR '':'') decoded));
                      val = snd (snd (py_partition (CHR '':'') decoded))
                  in if sep = [] then read_headers e headers rest
                     else read_headers e (headers(py_lower (py_strip key) \<mapsto> py_strip val)) rest)))"
  by pat_completeness auto
termination
proof (relation "measure (\<lambda>(e, headers, inp). length inp)")
  show "wf (measure (\<lambda>(e, headers, inp). length inp))"
    by simp
next
  have shorter: "length (snd (readline inp)) < length inp" if "fst (readline inp) \<noteq> []" for inp
  proof (cases "dropWhile (\<lambda>c. c \<noteq> LF) inp")
    case Nil
    with that show ?thesis
      by (cases inp) (simp_all add: readline_def)
  next
    case (Cons c rest)
    have "length (dropWhile (\<lambda>c. c \<noteq> LF) inp) \<le> length inp"
      by (rule length_dropWhile_le)
    with Cons show ?thesis
      by (simp add: readline_def)
  qed
  fix e :: env and headers :: "string \<rightharpoonup> string" and inp line rest decoded key sep val
  assume "line = fst (readline inp)" "rest = snd (readline inp)" "line \<noteq> []"
  then have less: "length rest < length inp"
    using shorter by simp
  {
    show "((e, headers, rest), (e, headers, inp)) \<in> measure (\<lambda>(e, headers, inp). length inp)"
      using less by simp
  next
    show "((e, headers, rest), (e, headers, inp)) \<in> measure (\<lambda>(e, headers, inp). length inp)"
      using less by simp
  next
    show "((e, headers(py_lower (py_strip key) \<mapsto> py_strip val), rest), (e, headers, inp))
            \<in> measure (\<lambda>(e, headers, inp). length inp)"
      using less by simp
  }
qed

declare read_headers.simps [simp del]

text \<open>
  \<^verbatim>\<open>sys.stdin.buffer.read(n)\<close>: the next \<open>n\<close> bytes when the stream holds them. When it
  holds fewer, the read returns what is left at the end of the stream, unless the
  allocation of its \<open>n\<close>-byte result fails first (OverflowError for a size near
  \<open>2 ^ 63\<close>, MemoryError below), which the world decides (\<open>short_read\<close>).
\<close>

definition buffer_read :: "env \<Rightarrow> nat \<Rightarrow> string \<Rightarrow> (exn + string) \<times> string" where
  "buffer_read e n inp =
     (if n \<le> length inp then (Inr (take n inp), drop n inp)
      else (case short_read e n inp of
              Some exc \<Rightarrow> (Inl exc, inp)
            | None \<Rightarrow> (Inr inp, [])))"

text \<open>
  \<^verbatim>\<open>_read_message\<close>: the message and the rest of the stream. \<open>JNull\<close> is \<^verbatim>\<open>None\<close>.
  A \<^verbatim>\<open>content-length\<close> that \<^verbatim>\<open>int\<close> rejects raises ValueError, and so does a
  body that is not UTF-8 (UnicodeDecodeError, which \<^verbatim>\<open>except json.JSONDecodeError\<close>
  does not catch).
\<close>

definition read_message :: "env \<Rightarrow> string \<Rightarrow> (exn + json) \<times> string" where
  "read_message e inp =
     (case read_headers e Map.empty inp of
        (None, rest) \<Rightarrow> (Inr JNull, rest)
      | (Some headers, rest) \<Rightarrow>
          (case py_int_text e (case headers ''content-length'' of None \<Rightarrow> ''0'' | Some v \<Rightarrow> v) of
             None \<Rightarrow> (Inl ValueError, rest)
           | Some content_length \<Rightarrow>
               if content_length \<le> 0 then (Inr JNull, rest)
               else
                 (case buffer_read e (nat content_length) rest of
                    (Inl exc, rest1) \<Rightarrow> (Inl exc, rest1)
                  | (Inr body, rest1) \<Rightarrow>
                      if body = [] then (Inr JNull, rest1)
                      else (case decode_utf8 body of
                              Inl exc \<Rightarrow> (Inl exc, rest1)
                            | Inr decoded \<Rightarrow>
                                (case json_loads e decoded of
                                   None \<Rightarrow> (Inr JNull, rest1)
                                 | Some v \<Rightarrow> (Inr v, rest1))))))"

text \<open>
  \<^verbatim>\<open>_write_message\<close>: the bytes written to the output, header then body, or the
  exception of \<^verbatim>\<open>encode("utf-8")\<close>, raised before anything is written.
\<close>

definition write_message :: "env \<Rightarrow> json \<Rightarrow> exn + string" where
  "write_message e payload =
     (case encode_utf8 (json_dumps e payload) of
        Inl exc \<Rightarrow> Inl exc
      | Inr encoded \<Rightarrow>
          Inr (''Content-Length: '' @ str_int (int (length encoded)) @ [CR, LF, CR, LF] @ encoded))"

subsection \<open>Sample worlds\<close>

text \<open>
  A server object and small worlds on which the theorems below are instantiated: a
  process that exits after one second, one that outlives every timeout of the program,
  and a world built around a given \<open>spawn\<close>.
\<close>

definition sample_server :: server where
  "sample_server =
     \<lparr>kmsg_bin = ''kmsg'', shutdown = False, initialized = False,
      default_deep_recovery = False, default_trace_ax = False, server_version = ''0.0.0''\<rparr>"

definition exits :: "int \<Rightarrow> string \<Rightarrow> string \<Rightarrow> process" where
  "exits code out err =
     \<lparr>finishes_after = 1, exit_status = code, final_stdout = out, final_stderr = err,
      killed_stdout = [], killed_stderr = [], killed = False\<rparr>"

definition hangs :: "string \<Rightarrow> string \<Rightarrow> process" where
  "hangs out err =
     \<lparr>finishes_after = 3600, exit_status = 0, final_stdout = out, final_stderr = err,
      killed_stdout = out, killed_stderr = err, killed = False\<rparr>"

definition sample_env :: "(event list \<Rightarrow> string list \<Rightarrow> spawned) \<Rightarrow> env" where
  "sample_env sp =
     \<lparr>spawn = sp,
      elapsed_ms = (\<lambda>tr. 5),
      path_isfile = (\<lambda>p. False),
      json_loads = (\<lambda>s. if s = ''{}'' then Some (JObj []) else None),
      json_dumps = (\<lambda>v. ''{}''),
      json_dumps_pretty = (\<lambda>v. ''{}''),
      py_repr = (\<lambda>v. ''?''),
      int_text = (\<lambda>s. None),
      decode_replace = (\<lambda>bs. bs),
      short_read = (\<lambda>n inp. None)\<rparr>"

text \<open>
  A world in which the first run exits with status 1 and the search-miss marker on
  stderr, and every later run hangs.
\<close>

definition miss_then_hang :: env where
  "miss_then_hang =
     sample_env (\<lambda>tr args. if tr = [] then Spawned (exits 1 [] ''SEARCH_MISS'')
                            else Spawned (hangs ''partial'' []))"

text \<open>
  The reply to a \<^verbatim>\<open>ping\<close> whose \<^verbatim>\<open>id\<close> is the one-character string U+D800, a lone
  surrogate (the JSON text \<^verbatim>\<open>"\ud800"\<close> on the wire), and a world whose \<^verbatim>\<open>json.dumps\<close>
  gives this reply the text CPython gives it with \<^verbatim>\<open>ensure_ascii=False\<close>: the surrogate
  is copied, not escaped.
\<close>

definition lone_surrogate :: string where
  "lone_surrogate = [CHR 0xED, CHR 0xA0, CHR 0x80]"

definition surrogate_reply :: json where
  "surrogate_reply =
     JObj [(''jsonrpc'', JStr ''2.0''), (''id'', JStr lone_surrogate), (''result'', JObj [])]"

definition quoted :: "string \<Rightarrow> string" where
  "quoted s = CHR 0x22 # s @ [CHR 0x22]"

definition surrogate_env :: env where
  "surrogate_env =
     (sample_env (\<lambda>tr args. Spawned (exits 0 [] [])))
       \<lparr>json_dumps :=
          (\<lambda>v. if v = surrogate_reply
                then ''{'' @ quoted ''jsonrpc'' @ '': '' @ quoted ''2.0'' @ '', '' @
                     quoted ''id'' @ '': '' @ quoted lone_surrogate @ '', '' @
                     quoted ''result'' @ '': {}}''
                else ''{}'')\<rparr>"

section \<open>Properties\<close>

subsection \<open>The runner\<close>

lemma run_trace: "snd (run e tr args t) = tr @ [Run args t]"
  by (simp add: run_def Let_def)






lemma run_rejected_argv:
  assumes "args = [] \<or> argv_rejected args"
  shows "\<exists>exc. fst (run e tr args t) = Inl exc \<and> (\<forall>msg. exc \<noteq> OSError msg)"
  using assms by (auto simp: run_def Popen_def Let_def)




subsection \<open>The classifier\<close>

lemma py_contains_sublist: "py_contains needle hay \<longleftrightarrow> sublist needle hay"
  by (induction hay) (simp_all add: sublist_Cons_right)

text \<open>
  Lower-casing the text first makes the search blind to case: a phrase occurs in the
  lower-cased text as soon as any spelling of it occurs in the text.
\<close>

lemma sublist_py_lower:
  assumes "sublist u t" and "py_lower u = needle"
  shows "sublist needle (py_lower t)"
proof -
  from assms(1) obtain ps ss where "t = ps @ u @ ss"
    by (auto simp: sublist_def)
  then have "py_lower t = py_lower ps @ needle @ py_lower ss"
    using assms(2) by (simp add: py_lower_def)
  then show ?thesis
    by (auto simp: sublist_def)
qed

text \<open>
  Claim C6. The classifier returns one of five codes, the first that matches in the
  order: the generic phrases in the lower-cased text, the window marker, the search-miss
  marker, the Accessibility phrases (English or Korean), and the unknown failure
  otherwise. Each of the five codes has one fixed hint.
\<close>

theorem extract_error_code_first_match:
  "(extract_error_code t = ''KMSG_BIN_NOT_FOUND'' \<or>
    extract_error_code t = ''KAKAO_WINDOW_UNAVAILABLE'' \<or>
    extract_error_code t = ''CHAT_NOT_FOUND'' \<or>
    extract_error_code t = ''ACCESSIBILITY_PERMISSION_DENIED'' \<or>
    extract_error_code t = ''UNKNOWN_EXEC_FAILURE'') \<and>
   (sublist ''no such file or directory'' (py_lower t) \<or> sublist ''not found'' (py_lower t)
      \<longrightarrow> extract_error_code t = ''KMSG_BIN_NOT_FOUND'') \<and>
   (\<not> sublist ''no such file or directory'' (py_lower t) \<and> \<not> sublist ''not found'' (py_lower t) \<and>
    sublist ''WINDOW_NOT_READY'' t
      \<longrightarrow> extract_error_code t = ''KAKAO_WINDOW_UNAVAILABLE'') \<and>
   (\<not> sublist ''no such file or directory'' (py_lower t) \<and> \<not> sublist ''not found'' (py_lower t) \<and>
    \<not> sublist ''WINDOW_NOT_READY'' t \<and> sublist ''SEARCH_MISS'' t
      \<longrightarrow> extract_error_code t = ''CHAT_NOT_FOUND'') \<and>
   (\<not> sublist ''no such file or directory'' (py_lower t) \<and> \<not> sublist ''not found'' (py_lower t) \<and>
    \<not> sublist ''WINDOW_NOT_READY'' t \<and> \<not> sublist ''SEARCH_MISS'' t \<and>
    (sublist ''Accessibility'' t \<or> sublist accessibility_ko t)
      \<longrightarrow> extract_error_code t = ''ACCESSIBILITY_PERMISSION_DENIED'') \<and>
   (\<not> sublist ''no such file or directory'' (py_lower t) \<and> \<not> sublist ''not found'' (py_lower t) \<and>
    \<not> sublist ''WINDOW_NOT_READY'' t \<and> \<not> sublist ''SEARCH_MISS'' t \<and>
    \<not> sublist ''Accessibility'' t \<and> \<not> sublist accessibility_ko t
      \<longrightarrow> extract_error_code t = ''UNKNOWN_EXEC_FAILURE'') \<and>
   map_hint ''KMSG_BIN_NOT_FOUND'' = ''Set a valid KMSG_BIN path or install kmsg into PATH.'' \<and>
   map_hint ''KAKAO_WINDOW_UNAVAILABLE'' =
     ''KakaoTalk window was not ready. Open KakaoTalk and retry (or enable deep_recovery).'' \<and>
   map_hint ''CHAT_NOT_FOUND'' =
     ''Chat was not found in search results. Verify chat name spacing and visibility.'' \<and>
   map_hint ''ACCESSIBILITY_PERMISSION_DENIED'' =
     ''Grant Accessibility permission in System Settings > Privacy & Security > Accessibility.'' \<and>
   map_hint ''UNKNOWN_EXEC_FAILURE'' =
     ''Check raw_stdout/raw_stderr and rerun with trace_ax=true for details.''"
proof -
  have codes: "extract_error_code t =
      (if sublist ''no such file or directory'' (py_lower t) \<or> sublist ''not found'' (py_lower t)
         then ''KMSG_BIN_NOT_FOUND''
       else if sublist ''WINDOW_NOT_READY'' t then ''KAKAO_WINDOW_UNAVAILABLE''
       else if sublist ''SEARCH_MISS'' t then ''CHAT_NOT_FOUND''
       else if sublist ''Accessibility'' t \<or> sublist accessibility_ko t
         then ''ACCESSIBILITY_PERMISSION_DENIED''
       else ''UNKNOWN_EXEC_FAILURE'')"
    by (simp only: extract_error_code_def Let_def py_contains_sublist)
  have hints:
    "map_hint ''KMSG_BIN_NOT_FOUND'' = ''Set a valid KMSG_BIN path or install kmsg into PATH.''"
    "map_hint ''KAKAO_WINDOW_UNAVAILABLE'' =
       ''KakaoTalk window was not ready. Open KakaoTalk and retry (or enable deep_recovery).''"
    "map_hint ''CHAT_NOT_FOUND'' =
       ''Chat was not found in search results. Verify chat name spacing and visibility.''"
    "map_hint ''ACCESSIBILITY_PERMISSION_DENIED'' =
       ''Grant Accessibility permission in System Settings > Privacy & Security > Accessibility.''"
    "map_hint ''UNKNOWN_EXEC_FAILURE'' =
       ''Check raw_stdout/raw_stderr and rerun with trace_ax=true for details.''"
    by (simp_all add: map_hint_def)
  from codes hints show ?thesis
    by presburger
qed

theorem extract_error_code_first_match_witness:
  "extract_error_code ''SEARCH_MISS: chat NOT Found'' = ''KMSG_BIN_NOT_FOUND'' \<and>
   extract_error_code ''SEARCH_MISS while Accessibility is on'' = ''CHAT_NOT_FOUND''"
proof
  have generic: "sublist ''not found'' (py_lower ''SEARCH_MISS: chat NOT Found'')"
    unfolding py_contains_sublist [symmetric] by code_simp
  from extract_error_code_first_match
         [of "''SEARCH_MISS: chat NOT Found''", THEN conjunct2, THEN conjunct1] generic
  show "extract_error_code ''SEARCH_MISS: chat NOT Found'' = ''KMSG_BIN_NOT_FOUND''"
    by (iprover intro: disjI2 elim: mp)
next
  have miss:
    "\<not> sublist ''no such file or directory'' (py_lower ''SEARCH_MISS while Accessibility is on'')"
    "\<not> sublist ''not found'' (py_lower ''SEARCH_MISS while Accessibility is on'')"
    "\<not> sublist ''WINDOW_NOT_READY'' ''SEARCH_MISS while Accessibility is on''"
    "sublist ''SEARCH_MISS'' ''SEARCH_MISS while Accessibility is on''"
    unfolding py_contains_sublist [symmetric] by code_simp+
  from extract_error_code_first_match
         [of "''SEARCH_MISS while Accessibility is on''",
          THEN conjunct2, THEN conjunct2, THEN conjunct2, THEN conjunct1] miss
  show "extract_error_code ''SEARCH_MISS while Accessibility is on'' = ''CHAT_NOT_FOUND''"
    by (iprover intro: conjI elim: mp)
qed

subsection \<open>The tool handlers\<close>

lemmas arg_defs = arg_chat_def arg_deep_recovery_def arg_trace_ax_def arg_flags_def read_cmd_def read_timeout_def

lemma run_traceD: "run e tr args t = (res, tr') \<Longrightarrow> tr' = tr @ [Run args t]"
  using run_trace [of e tr args t] by simp

lemma read_first_raises:
  assumes "arg_chat e arguments \<noteq> []"
    and "py_int e (dict_get_default arguments ''limit'' (JInt 20)) = Inr raw"
    and "run e tr (read_cmd srv e arguments raw) (read_timeout srv arguments) = (Inl exc, tr1)"
  shows "call_kmsg_read srv e tr arguments = (Inl exc, tr1)"
  using assms by (simp add: call_kmsg_read_def Let_def arg_defs)

lemma read_first_times_out:
  assumes "arg_chat e arguments \<noteq> []"
    and "py_int e (dict_get_default arguments ''limit'' (JInt 20)) = Inr raw"
    and "run e tr (read_cmd srv e arguments raw) (read_timeout srv arguments) = (Inr first, tr1)"
    and "timed_out first"
  shows "call_kmsg_read srv e tr arguments =
           (Inr (error_payload ''PROCESS_TIMEOUT'' ''kmsg read timed out''
                   ''Increase stability (keep KakaoTalk open/focused) and retry.''
                   (stdout first) (stderr first) (latency_ms first)), tr1)"
  using assms by (simp add: call_kmsg_read_def Let_def arg_defs)

lemma read_first_succeeds:
  assumes "arg_chat e arguments \<noteq> []"
    and "py_int e (dict_get_default arguments ''limit'' (JInt 20)) = Inr raw"
    and "run e tr (read_cmd srv e arguments raw) (read_timeout srv arguments) = (Inr first, tr1)"
    and "\<not> timed_out first" and "returncode first = 0"
  shows "call_kmsg_read srv e tr arguments =
           (read_response e (arg_chat e arguments) (arg_trace_ax srv arguments) first, tr1)"
  using assms by (simp add: call_kmsg_read_def Let_def arg_defs)

lemma read_first_fails_no_retry:
  assumes "arg_chat e arguments \<noteq> []"
    and "py_int e (dict_get_default arguments ''limit'' (JInt 20)) = Inr raw"
    and "run e tr (read_cmd srv e arguments raw) (read_timeout srv arguments) = (Inr first, tr1)"
    and "\<not> timed_out first" and "returncode first \<noteq> 0"
    and "extract_error_code (stdout first @ [LF] @ stderr first) = code"
    and "code \<noteq> ''CHAT_NOT_FOUND'' \<or> arg_deep_recovery srv arguments"
  shows "call_kmsg_read srv e tr arguments =
           (Inr (error_payload code ''kmsg read failed'' (map_hint code)
                   (stdout first) (stderr first) (latency_ms first)), tr1)"
  using assms by (auto simp add: call_kmsg_read_def Let_def arg_defs)


lemma read_retry_raises:
  assumes "arg_chat e arguments \<noteq> []"
    and "py_int e (dict_get_default arguments ''limit'' (JInt 20)) = Inr raw"
    and "run e tr (read_cmd srv e arguments raw) (read_timeout srv arguments) = (Inr first, tr1)"
    and "\<not> timed_out first" and "returncode first \<noteq> 0"
    and "extract_error_code (stdout first @ [LF] @ stderr first) = ''CHAT_NOT_FOUND''"
    and "\<not> arg_deep_recovery srv arguments"
    and "run e tr1 (read_cmd srv e arguments raw @ [''--deep-recovery'']) 15 = (Inl exc, tr2)"
  shows "call_kmsg_read srv e tr arguments = (Inl exc, tr2)"
  using assms by (simp add: call_kmsg_read_def Let_def arg_defs)

lemma read_retry_succeeds:
  assumes "arg_chat e arguments \<noteq> []"
    and "py_int e (dict_get_default arguments ''limit'' (JInt 20)) = Inr raw"
    and "run e tr (read_cmd srv e arguments raw) (read_timeout srv arguments) = (Inr first, tr1)"
    and "\<not> timed_out first" and "returncode first \<noteq> 0"
    and "extract_error_code (stdout first @ [LF] @ stderr first) = ''CHAT_NOT_FOUND''"
    and "\<not> arg_deep_recovery srv arguments"
    and "run e tr1 (read_cmd srv e arguments raw @ [''--deep-recovery'']) 15 = (Inr retry, tr2)"
    and "returncode retry = 0" and "\<not> timed_out retry"
  shows "call_kmsg_read srv e tr arguments =
           (read_response e (arg_chat e arguments) (arg_trace_ax srv arguments) retry, tr2)"
  using assms by (simp add: call_kmsg_read_def Let_def arg_defs)

lemma read_retry_fails:
  assumes "arg_chat e arguments \<noteq> []"
    and "py_int e (dict_get_default arguments ''limit'' (JInt 20)) = Inr raw"
    and "run e tr (read_cmd srv e arguments raw) (read_timeout srv arguments) = (Inr first, tr1)"
    and "\<not> timed_out first" and "returncode first \<noteq> 0"
    and "extract_error_code (stdout first @ [LF] @ stderr first) = ''CHAT_NOT_FOUND''"
    and "\<not> arg_deep_recovery srv arguments"
    and "run e tr1 (read_cmd srv e arguments raw @ [''--deep-recovery'']) 15 = (Inr retry, tr2)"
    and "returncode retry \<noteq> 0 \<or> timed_out retry"
  shows "call_kmsg_read srv e tr arguments =
           (Inr (error_payload (extract_error_code (stdout retry @ [LF] @ stderr retry))
                   ''kmsg read failed after deep-recovery retry''
                   (map_hint (extract_error_code (stdout retry @ [LF] @ stderr retry)))
                   (stdout retry) (stderr retry) (latency_ms retry)), tr2)"
  using assms by (auto simp add: call_kmsg_read_def Let_def arg_defs)

lemma read_events:
  assumes valid: "arg_chat e arguments \<noteq> []"
      "py_int e (dict_get_default arguments ''limit'' (JInt 20)) = Inr raw"
  shows "snd (call_kmsg_read srv e tr arguments) =
           tr @ [Run (read_cmd srv e arguments raw) (read_timeout srv arguments)] \<or>
         snd (call_kmsg_read srv e tr arguments) =
           tr @ [Run (read_cmd srv e arguments raw) (read_timeout srv arguments),
                 Run (read_cmd srv e arguments raw @ [''--deep-recovery'']) 15]"
proof -
  let ?cmd = "read_cmd srv e arguments raw" and ?t = "read_timeout srv arguments"
  let ?tr1 = "tr @ [Run ?cmd ?t]"
  obtain res where first: "run e tr ?cmd ?t = (res, ?tr1)"
    using run_trace [of e tr ?cmd ?t] by (cases "run e tr ?cmd ?t") simp
  obtain res2 where second: "run e ?tr1 (?cmd @ [''--deep-recovery'']) 15 =
      (res2, ?tr1 @ [Run (?cmd @ [''--deep-recovery'']) 15])"
    using run_trace [of e ?tr1 "?cmd @ [''--deep-recovery'']" 15]
    by (cases "run e ?tr1 (?cmd @ [''--deep-recovery'']) 15") simp
  show ?thesis
  proof (cases res)
    case (Inl exc)
    with first read_first_raises [OF valid] show ?thesis by simp
  next
    case (Inr r)
    note r = first [unfolded Inr]
    consider (timeout) "timed_out r"
      | (ok) "\<not> timed_out r" "returncode r = 0"
      | (plain) "\<not> timed_out r" "returncode r \<noteq> 0"
          "extract_error_code (stdout r @ [LF] @ stderr r) \<noteq> ''CHAT_NOT_FOUND'' \<or> arg_deep_recovery srv arguments"
      | (retry) "\<not> timed_out r" "returncode r \<noteq> 0"
          "extract_error_code (stdout r @ [LF] @ stderr r) = ''CHAT_NOT_FOUND''"
          "\<not> arg_deep_recovery srv arguments"
      by blast
    then show ?thesis
    proof cases
      case timeout
      from read_first_times_out [OF valid r timeout] show ?thesis by simp
    next
      case ok
      from read_first_succeeds [OF valid r ok] show ?thesis by simp
    next
      case plain
      from read_first_fails_no_retry [OF valid r plain(1,2) refl plain(3)] show ?thesis by simp
    next
      case retry
      show ?thesis
      proof (cases res2)
        case (Inl exc)
        from read_retry_raises [OF valid r retry second [unfolded Inl]] show ?thesis by simp
      next
        case (Inr r2)
        note r2 = second [unfolded Inr]
        show ?thesis
        proof (cases "returncode r2 = 0 \<and> \<not> timed_out r2")
          case True
          with read_retry_succeeds [OF valid r retry r2] show ?thesis by simp
        next
          case False
          then have "returncode r2 \<noteq> 0 \<or> timed_out r2" by simp
          from read_retry_fails [OF valid r retry r2 this] show ?thesis by simp
        qed
      qed
    qed
  qed
qed

text \<open>
  Claim C1, as the code has it. In the two sending handlers a truthy \<open>confirm\<close> never
  starts a process and never touches the history, and the envelope has latency 0: its
  code is CONFIRMATION_REQUIRED when both required fields are non-empty after trimming,
  and INVALID_ARGUMENT when one of them is missing or empty, because the handlers check
  the required fields first.
\<close>

theorem confirm_gate:
  assumes "py_bool (dict_get_default arguments ''confirm'' (JBool False))"
  shows "call_kmsg_send srv e tr arguments =
           (if py_strip (py_str e (dict_get_default arguments ''chat'' (JStr []))) = [] \<or>
               py_strip (py_str e (dict_get_default arguments ''message'' (JStr []))) = []
            then (Inr (error_payload ''INVALID_ARGUMENT'' ''chat and message are required''
                         ''Provide both chat and message.'' [] [] 0), tr)
            else (Inr (error_payload ''CONFIRMATION_REQUIRED''
                         ''kmsg_send blocked because confirm=true requests pre-send confirmation''
                         ''Ask user for explicit approval, then call again with confirm=false (or omit confirm).''
                         [] [] 0), tr)) \<and>
         call_kmsg_send_image srv e tr arguments =
           (if py_strip (py_str e (dict_get_default arguments ''chat'' (JStr []))) = [] \<or>
               py_strip (py_str e (dict_get_default arguments ''image_path'' (JStr []))) = []
            then (Inr (error_payload ''INVALID_ARGUMENT'' ''chat and image_path are required''
                         ''Provide both chat and image_path.'' [] [] 0), tr)
            else (Inr (error_payload ''CONFIRMATION_REQUIRED''
                         ''kmsg_send_image blocked because confirm=true requests pre-send confirmation''
                         ''Ask user for explicit approval, then call again with confirm=false (or omit confirm).''
                         [] [] 0), tr))"
  using assms by (simp add: call_kmsg_send_def call_kmsg_send_image_def Let_def)

lemma strip_nonempty_examples:
  "py_strip ''Alice'' = ''Alice''" "py_strip ''hello'' = ''hello''" "py_strip ''/tmp/missing.png'' = ''/tmp/missing.png''"
  "py_strip [] = []"
  by code_simp+

theorem confirm_gate_witness:
  "call_kmsg_send sample_server (sample_env (\<lambda>tr args. Spawned (exits 0 [] []))) []
     [(''chat'', JStr ''Alice''), (''message'', JStr ''hello''), (''confirm'', JBool True)] =
   (Inr (error_payload ''CONFIRMATION_REQUIRED''
           ''kmsg_send blocked because confirm=true requests pre-send confirmation''
           ''Ask user for explicit approval, then call again with confirm=false (or omit confirm).''
           [] [] 0), [])"
  using confirm_gate [of "[(''chat'', JStr ''Alice''), (''message'', JStr ''hello''), (''confirm'', JBool True)]"
      sample_server "sample_env (\<lambda>tr args. Spawned (exits 0 [] []))" "[]", THEN conjunct1]
  by (simp add: dict_get_default_def py_str_def strip_nonempty_examples)

text \<open>
  Claim C1 as stated fails: with \<open>confirm\<close> true and no chat the envelope of
  \<^verbatim>\<open>kmsg_send\<close> is INVALID_ARGUMENT, and \<^verbatim>\<open>kmsg_read\<close> does not look at
  \<open>confirm\<close> and runs the program.
\<close>

theorem confirm_gate_counterexample:
  "call_kmsg_send sample_server (sample_env (\<lambda>tr args. Spawned (exits 0 [] []))) []
     [(''confirm'', JBool True)] =
   (Inr (error_payload ''INVALID_ARGUMENT'' ''chat and message are required''
           ''Provide both chat and message.'' [] [] 0), []) \<and>
   snd (call_kmsg_read sample_server (sample_env (\<lambda>tr args. Spawned (exits 0 [] []))) []
     [(''chat'', JStr ''Alice''), (''confirm'', JBool True)]) =
   [Run [''kmsg'', ''read'', ''Alice'', ''--json'', ''--limit'', ''20''] 8]"
  by code_simp

lemma read_chat_missing:
  assumes "arg_chat e arguments = []"
  shows "call_kmsg_read srv e tr arguments =
           (Inr (error_payload ''INVALID_ARGUMENT'' ''chat is required''
                   ''Provide a non-empty chat name.'' [] [] 0), tr)"
  using assms by (simp add: call_kmsg_read_def Let_def arg_defs)

lemma read_limit_rejected:
  assumes "arg_chat e arguments \<noteq> []"
    and "py_int e (dict_get_default arguments ''limit'' (JInt 20)) = Inl exc"
  shows "call_kmsg_read srv e tr arguments =
           (if exc = TypeError \<or> exc = ValueError
            then (Inr (error_payload ''INVALID_ARGUMENT'' ''limit must be an integer''
                         ''Use integer range 1..100 for limit.'' [] [] 0), tr)
            else (Inl exc, tr))"
  using assms by (simp add: call_kmsg_read_def Let_def arg_defs)

lemma send_response_timed_out:
  assumes "timed_out r"
  shows "send_response what chat trace_ax r =
           error_payload ''PROCESS_TIMEOUT'' (''kmsg '' @ what @ '' timed out'')
             ''Retry after ensuring KakaoTalk is responsive.'' (stdout r) (stderr r) (latency_ms r)"
  using assms by (simp add: send_response_def)

lemma send_events:
  "snd (call_kmsg_send srv e tr arguments) = tr \<or>
   (\<exists>cmd t. snd (call_kmsg_send srv e tr arguments) = tr @ [Run cmd t])"
  by (auto simp: call_kmsg_send_def Let_def split: prod.splits sum.splits dest!: run_traceD)

lemma send_image_events:
  "snd (call_kmsg_send_image srv e tr arguments) = tr \<or>
   (\<exists>p. snd (call_kmsg_send_image srv e tr arguments) = tr @ [IsFile p]) \<or>
   (\<exists>p cmd t. snd (call_kmsg_send_image srv e tr arguments) = tr @ [IsFile p, Run cmd t])"
  by (auto simp: call_kmsg_send_image_def Let_def split: prod.splits sum.splits dest!: run_traceD)

lemma read_no_retry:
  assumes valid: "arg_chat e arguments \<noteq> []"
      "py_int e (dict_get_default arguments ''limit'' (JInt 20)) = Inr raw"
    and first: "run e tr (read_cmd srv e arguments raw) (read_timeout srv arguments) = (res, tr1)"
    and no: "\<not> retry_due srv arguments res"
  shows "snd (call_kmsg_read srv e tr arguments) = tr1 \<and>
         (\<forall>r. res = Inr r \<and> \<not> timed_out r \<and> returncode r \<noteq> 0 \<longrightarrow>
            fst (call_kmsg_read srv e tr arguments) =
              Inr (error_payload (extract_error_code (stdout r @ [LF] @ stderr r))
                     ''kmsg read failed''
                     (map_hint (extract_error_code (stdout r @ [LF] @ stderr r)))
                     (stdout r) (stderr r) (latency_ms r)))"
proof (cases res)
  case (Inl exc)
  with read_first_raises [OF valid first [unfolded Inl]] show ?thesis
    by simp
next
  case (Inr r)
  note r = first [unfolded Inr]
  consider (timeout) "timed_out r"
    | (ok) "\<not> timed_out r" "returncode r = 0"
    | (plain) "\<not> timed_out r" "returncode r \<noteq> 0"
    by blast
  then show ?thesis
  proof cases
    case timeout
    with read_first_times_out [OF valid r timeout] Inr show ?thesis
      by simp
  next
    case ok
    with read_first_succeeds [OF valid r ok] Inr show ?thesis
      by simp
  next
    case plain
    with no Inr
    have other: "extract_error_code (stdout r @ [LF] @ stderr r) \<noteq> ''CHAT_NOT_FOUND'' \<or>
        arg_deep_recovery srv arguments"
      by (simp add: retry_due_def)
    from read_first_fails_no_retry [OF valid r plain refl other] Inr show ?thesis
      by simp
  qed
qed

lemma read_retry:
  assumes valid: "arg_chat e arguments \<noteq> []"
      "py_int e (dict_get_default arguments ''limit'' (JInt 20)) = Inr raw"
    and first: "run e tr (read_cmd srv e arguments raw) (read_timeout srv arguments) = (res, tr1)"
    and due: "retry_due srv arguments res"
    and second: "run e tr1 (read_cmd srv e arguments raw @ [''--deep-recovery'']) 15 = (res2, tr2)"
  shows "call_kmsg_read srv e tr arguments =
           (case res2 of
              Inl exc \<Rightarrow> Inl exc
            | Inr retry \<Rightarrow>
                if returncode retry = 0 \<and> \<not> timed_out retry
                then read_response e (arg_chat e arguments) (arg_trace_ax srv arguments) retry
                else Inr (error_payload (extract_error_code (stdout retry @ [LF] @ stderr retry))
                            ''kmsg read failed after deep-recovery retry''
                            (map_hint (extract_error_code (stdout retry @ [LF] @ stderr retry)))
                            (stdout retry) (stderr retry) (latency_ms retry)),
            tr2)"
proof -
  from due obtain r where res: "res = Inr r"
    and failed: "\<not> timed_out r" "returncode r \<noteq> 0"
    and code: "extract_error_code (stdout r @ [LF] @ stderr r) = ''CHAT_NOT_FOUND''"
    and off: "\<not> arg_deep_recovery srv arguments"
    by (cases res) (simp_all add: retry_due_def)
  note r = first [unfolded res]
  show ?thesis
  proof (cases res2)
    case (Inl exc)
    with read_retry_raises [OF valid r failed code off second [unfolded Inl]] show ?thesis
      by simp
  next
    case (Inr retry)
    note retry = second [unfolded Inr]
    show ?thesis
    proof (cases "returncode retry = 0 \<and> \<not> timed_out retry")
      case True
      with read_retry_succeeds [OF valid r failed code off retry
            True [THEN conjunct1] True [THEN conjunct2]] Inr
      show ?thesis
        by simp
    next
      case False
      then have "returncode retry \<noteq> 0 \<or> timed_out retry"
        by simp
      from read_retry_fails [OF valid r failed code off retry this] Inr False show ?thesis
        by (simp only: sum.case if_False)
    qed
  qed
qed


text \<open>
  Claim C2. A read call that passes validation runs the program once, with the timeout of
  its mode. It then runs it a second time exactly when the first run returned a result
  with no timeout and a nonzero exit code, that output classifies as CHAT_NOT_FOUND, and
  deep recovery was off: the second run has \<^verbatim>\<open>--deep-recovery\<close> appended to the same
  command and the 15 s timeout, and its outcome is final (the success path when it exits
  with 0 in time, otherwise an error envelope built from the retry's own output), with no
  third run. In every other case (another classification, deep recovery already on, a
  first run that timed out, succeeded or raised) the first run is the only one; a call
  that fails validation runs nothing. The two sending handlers, whatever their arguments,
  run the program at most once.
\<close>

theorem read_retry_policy:
  "(arg_chat e arguments \<noteq> [] \<and>
    py_int e (dict_get_default arguments ''limit'' (JInt 20)) = Inr raw \<longrightarrow>
      (if retry_due srv arguments
            (fst (run e tr (read_cmd srv e arguments raw) (read_timeout srv arguments)))
       then snd (call_kmsg_read srv e tr arguments) =
              tr @ [Run (read_cmd srv e arguments raw) 8,
                    Run (read_cmd srv e arguments raw @ [''--deep-recovery'']) 15] \<and>
            fst (call_kmsg_read srv e tr arguments) =
              (case fst (run e (tr @ [Run (read_cmd srv e arguments raw) 8])
                           (read_cmd srv e arguments raw @ [''--deep-recovery'']) 15) of
                 Inl exc \<Rightarrow> Inl exc
               | Inr retry \<Rightarrow>
                   if returncode retry = 0 \<and> \<not> timed_out retry
                   then read_response e (arg_chat e arguments) (arg_trace_ax srv arguments) retry
                   else Inr (error_payload
                               (extract_error_code (stdout retry @ [LF] @ stderr retry))
                               ''kmsg read failed after deep-recovery retry''
                               (map_hint (extract_error_code (stdout retry @ [LF] @ stderr retry)))
                               (stdout retry) (stderr retry) (latency_ms retry)))
       else snd (call_kmsg_read srv e tr arguments) =
              tr @ [Run (read_cmd srv e arguments raw) (read_timeout srv arguments)] \<and>
            (\<forall>r. fst (run e tr (read_cmd srv e arguments raw) (read_timeout srv arguments)) = Inr r \<and>
                 \<not> timed_out r \<and> returncode r \<noteq> 0 \<longrightarrow>
                 fst (call_kmsg_read srv e tr arguments) =
                   Inr (error_payload (extract_error_code (stdout r @ [LF] @ stderr r))
                          ''kmsg read failed''
                          (map_hint (extract_error_code (stdout r @ [LF] @ stderr r)))
                          (stdout r) (stderr r) (latency_ms r))))) \<and>
   (arg_chat e arguments = [] \<or>
    (\<exists>exc. py_int e (dict_get_default arguments ''limit'' (JInt 20)) = Inl exc) \<longrightarrow>
      snd (call_kmsg_read srv e tr arguments) = tr) \<and>
   (snd (call_kmsg_send srv e tr arguments) = tr \<or>
    (\<exists>cmd t. snd (call_kmsg_send srv e tr arguments) = tr @ [Run cmd t])) \<and>
   (snd (call_kmsg_send_image srv e tr arguments) = tr \<or>
    (\<exists>p. snd (call_kmsg_send_image srv e tr arguments) = tr @ [IsFile p]) \<or>
    (\<exists>p cmd t. snd (call_kmsg_send_image srv e tr arguments) = tr @ [IsFile p, Run cmd t]))"
proof -
  let ?cmd = "read_cmd srv e arguments raw" and ?t = "read_timeout srv arguments"
  let ?first = "run e tr ?cmd ?t"
  have read: "if retry_due srv arguments (fst ?first)
       then snd (call_kmsg_read srv e tr arguments) =
              tr @ [Run ?cmd 8, Run (?cmd @ [''--deep-recovery'']) 15] \<and>
            fst (call_kmsg_read srv e tr arguments) =
              (case fst (run e (tr @ [Run ?cmd 8]) (?cmd @ [''--deep-recovery'']) 15) of
                 Inl exc \<Rightarrow> Inl exc
               | Inr retry \<Rightarrow>
                   if returncode retry = 0 \<and> \<not> timed_out retry
                   then read_response e (arg_chat e arguments) (arg_trace_ax srv arguments) retry
                   else Inr (error_payload
                               (extract_error_code (stdout retry @ [LF] @ stderr retry))
                               ''kmsg read failed after deep-recovery retry''
                               (map_hint (extract_error_code (stdout retry @ [LF] @ stderr retry)))
                               (stdout retry) (stderr retry) (latency_ms retry)))
       else snd (call_kmsg_read srv e tr arguments) = tr @ [Run ?cmd ?t] \<and>
            (\<forall>r. fst ?first = Inr r \<and> \<not> timed_out r \<and> returncode r \<noteq> 0 \<longrightarrow>
                 fst (call_kmsg_read srv e tr arguments) =
                   Inr (error_payload (extract_error_code (stdout r @ [LF] @ stderr r))
                          ''kmsg read failed''
                          (map_hint (extract_error_code (stdout r @ [LF] @ stderr r)))
                          (stdout r) (stderr r) (latency_ms r)))"
    if valid: "arg_chat e arguments \<noteq> []"
      "py_int e (dict_get_default arguments ''limit'' (JInt 20)) = Inr raw"
  proof (cases "retry_due srv arguments (fst ?first)")
    case True
    then have off: "\<not> arg_deep_recovery srv arguments"
      by (cases "fst ?first") (simp_all add: retry_due_def)
    then have t: "?t = 8"
      by (simp add: read_timeout_def)
    have first: "?first = (fst ?first, tr @ [Run ?cmd 8])"
      using run_trace [of e tr ?cmd ?t] t by (cases ?first) simp
    let ?second = "run e (tr @ [Run ?cmd 8]) (?cmd @ [''--deep-recovery'']) 15"
    have second: "?second = (fst ?second, tr @ [Run ?cmd 8, Run (?cmd @ [''--deep-recovery'']) 15])"
      using run_trace [of e "tr @ [Run ?cmd 8]" "?cmd @ [''--deep-recovery'']" 15]
      by (cases ?second) simp
    from read_retry [OF valid first True second] True show ?thesis
      by (simp only: if_True fst_conv snd_conv simp_thms)
  next
    case False
    have first: "?first = (fst ?first, tr @ [Run ?cmd ?t])"
      using run_trace [of e tr ?cmd ?t] by (cases ?first) simp
    show ?thesis
      unfolding if_not_P [OF False] by (rule read_no_retry [OF valid first False])
  qed
  have invalid: "snd (call_kmsg_read srv e tr arguments) = tr"
    if "arg_chat e arguments = [] \<or>
        (\<exists>exc. py_int e (dict_get_default arguments ''limit'' (JInt 20)) = Inl exc)"
  proof (cases "arg_chat e arguments = []")
    case True
    then show ?thesis
      by (simp add: read_chat_missing)
  next
    case False
    with that obtain exc where "py_int e (dict_get_default arguments ''limit'' (JInt 20)) = Inl exc"
      by auto
    from read_limit_rejected [OF False this] show ?thesis
      by simp
  qed
  show ?thesis
  proof (intro conjI impI)
    assume valid: "arg_chat e arguments \<noteq> [] \<and>
      py_int e (dict_get_default arguments ''limit'' (JInt 20)) = Inr raw"
    show "if retry_due srv arguments (fst ?first)
       then snd (call_kmsg_read srv e tr arguments) =
              tr @ [Run ?cmd 8, Run (?cmd @ [''--deep-recovery'']) 15] \<and>
            fst (call_kmsg_read srv e tr arguments) =
              (case fst (run e (tr @ [Run ?cmd 8]) (?cmd @ [''--deep-recovery'']) 15) of
                 Inl exc \<Rightarrow> Inl exc
               | Inr retry \<Rightarrow>
                   if returncode retry = 0 \<and> \<not> timed_out retry
                   then read_response e (arg_chat e arguments) (arg_trace_ax srv arguments) retry
                   else Inr (error_payload
                               (extract_error_code (stdout retry @ [LF] @ stderr retry))
                               ''kmsg read failed after deep-recovery retry''
                               (map_hint (extract_error_code (stdout retry @ [LF] @ stderr retry)))
                               (stdout retry) (stderr retry) (latency_ms retry)))
       else snd (call_kmsg_read srv e tr arguments) = tr @ [Run ?cmd ?t] \<and>
            (\<forall>r. fst ?first = Inr r \<and> \<not> timed_out r \<and> returncode r \<noteq> 0 \<longrightarrow>
                 fst (call_kmsg_read srv e tr arguments) =
                   Inr (error_payload (extract_error_code (stdout r @ [LF] @ stderr r))
                          ''kmsg read failed''
                          (map_hint (extract_error_code (stdout r @ [LF] @ stderr r)))
                          (stdout r) (stderr r) (latency_ms r)))"
      by (rule read [OF valid [THEN conjunct1] valid [THEN conjunct2]])
  next
    assume "arg_chat e arguments = [] \<or>
        (\<exists>exc. py_int e (dict_get_default arguments ''limit'' (JInt 20)) = Inl exc)"
    then show "snd (call_kmsg_read srv e tr arguments) = tr"
      by (rule invalid)
  next
    show "snd (call_kmsg_send srv e tr arguments) = tr \<or>
        (\<exists>cmd t. snd (call_kmsg_send srv e tr arguments) = tr @ [Run cmd t])"
      by (rule send_events)
  next
    show "snd (call_kmsg_send_image srv e tr arguments) = tr \<or>
        (\<exists>p. snd (call_kmsg_send_image srv e tr arguments) = tr @ [IsFile p]) \<or>
        (\<exists>p cmd t. snd (call_kmsg_send_image srv e tr arguments) = tr @ [IsFile p, Run cmd t])"
      by (rule send_image_events)
  qed
qed

theorem read_retry_policy_witness:
  "snd (call_kmsg_read sample_server miss_then_hang [] [(''chat'', JStr ''Alice'')]) =
     [Run [''kmsg'', ''read'', ''Alice'', ''--json'', ''--limit'', ''20''] 8,
      Run [''kmsg'', ''read'', ''Alice'', ''--json'', ''--limit'', ''20'', ''--deep-recovery''] 15]"
proof -
  let ?args = "[(''chat'', JStr ''Alice'')]"
  have cmd: "read_cmd sample_server miss_then_hang ?args 20 =
      [''kmsg'', ''read'', ''Alice'', ''--json'', ''--limit'', ''20'']"
    by code_simp
  have valid: "arg_chat miss_then_hang ?args \<noteq> [] \<and>
    py_int miss_then_hang (dict_get_default ?args ''limit'' (JInt 20)) = Inr 20"
    by code_simp
  have due: "retry_due sample_server ?args
      (fst (run miss_then_hang [] (read_cmd sample_server miss_then_hang ?args 20)
              (read_timeout sample_server ?args)))"
    by code_simp
  from read_retry_policy [of miss_then_hang ?args 20 sample_server "[]",
      THEN conjunct1, THEN mp, OF valid, unfolded if_P [OF due], THEN conjunct1]
  show ?thesis
    by (simp add: cmd)
qed

text \<open>
  Claim C4, at the input where the code departs from it: the first run misses the chat,
  the deep-recovery retry hangs and is killed (\<open>timed_out\<close> true, exit code 124), and
  the envelope has the code the classifier gives the partial output, here
  UNKNOWN_EXEC_FAILURE, not PROCESS_TIMEOUT.
\<close>

theorem read_retry_timeout_reclassified:
  "call_kmsg_read sample_server miss_then_hang [] [(''chat'', JStr ''Alice'')] =
     (Inr (error_payload ''UNKNOWN_EXEC_FAILURE'' ''kmsg read failed after deep-recovery retry''
             ''Check raw_stdout/raw_stderr and rerun with trace_ax=true for details.''
             ''partial'' [] 5),
      [Run [''kmsg'', ''read'', ''Alice'', ''--json'', ''--limit'', ''20''] 8,
       Run [''kmsg'', ''read'', ''Alice'', ''--json'', ''--limit'', ''20'', ''--deep-recovery''] 15]) \<and>
   fst (run miss_then_hang [Run [''kmsg'', ''read'', ''Alice'', ''--json'', ''--limit'', ''20''] 8]
          [''kmsg'', ''read'', ''Alice'', ''--json'', ''--limit'', ''20'', ''--deep-recovery''] 15) =
     Inr \<lparr>returncode = 124, stdout = ''partial'', stderr = [], latency_ms = 5, timed_out = True\<rparr>"
  by code_simp

text \<open>
  Claim C7. When the chat is not empty and \<^verbatim>\<open>int(raw_limit)\<close> gives \<open>n\<close>, the call is
  not rejected: the program is run, and the argument after \<^verbatim>\<open>--limit\<close> is the decimal
  text of 1 when \<open>n\<close> is below 1, of 100 when it is above 100, and of \<open>n\<close> itself
  otherwise. The only other run a read call can make, the deep-recovery retry, carries the
  same limit.
\<close>

theorem read_limit_clamped:
  assumes "arg_chat e arguments \<noteq> []"
    and "py_int e (dict_get_default arguments ''limit'' (JInt 20)) = Inr n"
  shows "\<exists>evs. snd (call_kmsg_read srv e tr arguments) =
           tr @ Run ([kmsg_bin srv, ''read'', arg_chat e arguments, ''--json'', ''--limit'',
                      str_int (if n < 1 then 1 else if 100 < n then 100 else n)]
                     @ arg_flags srv arguments) (read_timeout srv arguments) # evs \<and>
           (evs = [] \<or>
            evs = [Run ([kmsg_bin srv, ''read'', arg_chat e arguments, ''--json'', ''--limit'',
                         str_int (if n < 1 then 1 else if 100 < n then 100 else n)]
                        @ arg_flags srv arguments @ [''--deep-recovery'']) 15])"
proof -
  have clamp: "max 1 (min n 100) = (if n < 1 then 1 else if 100 < n then 100 else n)"
    by simp
  have cmd: "read_cmd srv e arguments n =
      [kmsg_bin srv, ''read'', arg_chat e arguments, ''--json'', ''--limit'',
       str_int (if n < 1 then 1 else if 100 < n then 100 else n)] @ arg_flags srv arguments"
    unfolding read_cmd_def clamp ..
  from read_events [OF assms, of srv tr] show ?thesis
    unfolding cmd by auto
qed

lemma ex_conjunct1: "\<exists>x. P x \<and> Q x \<Longrightarrow> \<exists>x. P x"
  by (elim exE conjE, rule exI)

theorem read_limit_clamped_witness:
  "\<exists>evs. snd (call_kmsg_read sample_server miss_then_hang [] [(''chat'', JStr ''Alice''), (''limit'', JInt 500)]) =
      Run [''kmsg'', ''read'', ''Alice'', ''--json'', ''--limit'', ''100''] 8 # evs"
proof -
  let ?args = "[(''chat'', JStr ''Alice''), (''limit'', JInt 500)]"
  have valid: "arg_chat miss_then_hang ?args \<noteq> []"
    "py_int miss_then_hang (dict_get_default ?args ''limit'' (JInt 20)) = Inr 500"
    by code_simp+
  have eval: "arg_chat miss_then_hang ?args = ''Alice''" "arg_flags sample_server ?args = []"
    "read_timeout sample_server ?args = 8" "str_int 100 = ''100''"
    "kmsg_bin sample_server = ''kmsg''"
    by code_simp+
  have clamp: "(if (500::int) < 1 then 1 else if (100::int) < 500 then 100 else 500) = 100"
    by simp
  from read_limit_clamped [OF valid, of sample_server "[]", unfolded eval clamp append_Nil append_Nil2 append_Cons]
  show ?thesis
    by (rule ex_conjunct1)
qed



lemma send_image_confirm:
  assumes "py_bool (dict_get_default arguments ''confirm'' (JBool False))"
  shows "call_kmsg_send_image srv e tr arguments =
           (if py_strip (py_str e (dict_get_default arguments ''chat'' (JStr []))) = [] \<or>
               py_strip (py_str e (dict_get_default arguments ''image_path'' (JStr []))) = []
            then (Inr (error_payload ''INVALID_ARGUMENT'' ''chat and image_path are required''
                         ''Provide both chat and image_path.'' [] [] 0), tr)
            else (Inr (error_payload ''CONFIRMATION_REQUIRED''
                         ''kmsg_send_image blocked because confirm=true requests pre-send confirmation''
                         ''Ask user for explicit approval, then call again with confirm=false (or omit confirm).''
                         [] [] 0), tr))"
  using assms by (simp add: call_kmsg_send_image_def Let_def)

lemma error_payload_message:
  "error_payload code message hint out err latency = error_payload code' message' hint' out' err' latency'
     \<Longrightarrow> message = message'"
  by (simp add: error_payload_def)

text \<open>
  Claim C9. In \<^verbatim>\<open>_call_kmsg_send_image\<close> the confirm gate stands before the file check:
  with chat and image path non-empty and \<open>confirm\<close> truthy the result is the
  CONFIRMATION_REQUIRED envelope and the history is unchanged (no \<open>IsFile\<close> event, no
  run), whatever the file system holds. The envelope for a path that is not a file is
  only returned when \<open>confirm\<close> is false for the handler: the key is absent, or
  \<^verbatim>\<open>false\<close>, or a falsy value that is not a boolean.
\<close>

theorem send_image_confirm_before_file_check:
  "(arg_chat e arguments \<noteq> [] \<and>
    py_strip (py_str e (dict_get_default arguments ''image_path'' (JStr []))) \<noteq> [] \<and>
    py_bool (dict_get_default arguments ''confirm'' (JBool False)) \<longrightarrow>
      call_kmsg_send_image srv e tr arguments =
        (Inr (error_payload ''CONFIRMATION_REQUIRED''
                ''kmsg_send_image blocked because confirm=true requests pre-send confirmation''
                ''Ask user for explicit approval, then call again with confirm=false (or omit confirm).''
                [] [] 0), tr)) \<and>
   (fst (call_kmsg_send_image srv e tr arguments) =
      Inr (error_payload ''INVALID_ARGUMENT'' ''image_path must point to an existing file''
             ''Provide a valid local image file path.'' [] [] 0) \<longrightarrow>
      \<not> py_bool (dict_get_default arguments ''confirm'' (JBool False)) \<and>
      (dict_get arguments ''confirm'' = None \<or>
       dict_get arguments ''confirm'' = Some (JBool False) \<or>
       (\<exists>v. dict_get arguments ''confirm'' = Some v \<and> (\<forall>b. v \<noteq> JBool b))))"
proof (intro conjI impI)
  assume "arg_chat e arguments \<noteq> [] \<and>
    py_strip (py_str e (dict_get_default arguments ''image_path'' (JStr []))) \<noteq> [] \<and>
    py_bool (dict_get_default arguments ''confirm'' (JBool False))"
  then show "call_kmsg_send_image srv e tr arguments =
        (Inr (error_payload ''CONFIRMATION_REQUIRED''
                ''kmsg_send_image blocked because confirm=true requests pre-send confirmation''
                ''Ask user for explicit approval, then call again with confirm=false (or omit confirm).''
                [] [] 0), tr)"
    by (simp add: call_kmsg_send_image_def Let_def arg_chat_def)
next
  assume env: "fst (call_kmsg_send_image srv e tr arguments) =
      Inr (error_payload ''INVALID_ARGUMENT'' ''image_path must point to an existing file''
             ''Provide a valid local image file path.'' [] [] 0)"
  show off: "\<not> py_bool (dict_get_default arguments ''confirm'' (JBool False))"
  proof
    assume "py_bool (dict_get_default arguments ''confirm'' (JBool False))"
    then have on: "py_bool (dict_get_default arguments ''confirm'' (JBool False))" .
    show False
    proof (cases "py_strip (py_str e (dict_get_default arguments ''chat'' (JStr []))) = [] \<or>
                 py_strip (py_str e (dict_get_default arguments ''image_path'' (JStr []))) = []")
      case True
      from env [unfolded send_image_confirm [OF on] if_P [OF True]] show False
        by (simp add: error_payload_def)
    next
      case False
      from env [unfolded send_image_confirm [OF on] if_not_P [OF False]] show False
        by (simp add: error_payload_def)
    qed
  qed
  show "dict_get arguments ''confirm'' = None \<or>
       dict_get arguments ''confirm'' = Some (JBool False) \<or>
       (\<exists>v. dict_get arguments ''confirm'' = Some v \<and> (\<forall>b. v \<noteq> JBool b))"
  proof (cases "dict_get arguments ''confirm''")
    case None
    then show ?thesis by simp
  next
    case (Some v)
    with off have "\<not> py_bool v"
      by (simp add: dict_get_default_def dict_get_def)
    with Some show ?thesis
      by (cases v) auto
  qed
qed

theorem send_image_confirm_before_file_check_witness:
  "call_kmsg_send_image sample_server miss_then_hang []
     [(''chat'', JStr ''Alice''), (''image_path'', JStr ''/tmp/missing.png''), (''confirm'', JBool True)] =
   (Inr (error_payload ''CONFIRMATION_REQUIRED''
           ''kmsg_send_image blocked because confirm=true requests pre-send confirmation''
           ''Ask user for explicit approval, then call again with confirm=false (or omit confirm).''
           [] [] 0), []) \<and>
   \<not> path_isfile miss_then_hang ''/tmp/missing.png''"
proof
  let ?args = "[(''chat'', JStr ''Alice''), (''image_path'', JStr ''/tmp/missing.png''), (''confirm'', JBool True)]"
  have pre: "arg_chat miss_then_hang ?args \<noteq> [] \<and>
    py_strip (py_str miss_then_hang (dict_get_default ?args ''image_path'' (JStr []))) \<noteq> [] \<and>
    py_bool (dict_get_default ?args ''confirm'' (JBool False))"
    by code_simp
  from send_image_confirm_before_file_check
         [of miss_then_hang ?args sample_server "[]", THEN conjunct1, THEN mp, OF pre]
  show "call_kmsg_send_image sample_server miss_then_hang [] ?args =
   (Inr (error_payload ''CONFIRMATION_REQUIRED''
           ''kmsg_send_image blocked because confirm=true requests pre-send confirmation''
           ''Ask user for explicit approval, then call again with confirm=false (or omit confirm).''
           [] [] 0), [])" .
  show "\<not> path_isfile miss_then_hang ''/tmp/missing.png''"
    by code_simp
qed

lemma payload_ok_error_payload [simp]:
  "payload_ok (error_payload code message hint out err latency) = Some False"
  by (simp add: payload_ok_def error_payload_def dict_get_def)

lemma payload_ok_send_response [simp]:
  "payload_ok (send_response what chat trace_ax r) = Some (\<not> timed_out r \<and> returncode r = 0)"
proof (cases "timed_out r \<or> returncode r \<noteq> 0")
  case True
  then show ?thesis
    by (auto simp: send_response_def Let_def)
next
  case False
  then show ?thesis
    by (simp add: send_response_def payload_ok_def dict_get_def)
qed

lemma payload_ok_read_response:
  assumes "read_response e chat trace_ax r = Inr payload"
  shows "payload_ok payload \<noteq> None"
proof (cases "json_loads e (stdout r)")
  case None
  with assms show ?thesis
    by (auto simp: read_response_def)
next
  case (Some doc)
  with assms obtain kv where "doc = JObj kv"
    by (cases doc) (simp_all add: read_response_def)
  with assms Some show ?thesis
    by (auto simp: read_response_def payload_ok_def dict_get_def)
qed

lemma read_payload_ok:
  assumes call: "call_kmsg_read srv e tr arguments = (Inr payload, tr')"
  shows "payload_ok payload \<noteq> None"
proof (cases "arg_chat e arguments = []")
  case True
  from call [unfolded read_chat_missing [OF True]] show ?thesis
    by auto
next
  case chat: False
  show ?thesis
  proof (cases "py_int e (dict_get_default arguments ''limit'' (JInt 20))")
    case (Inl exc)
    from call [unfolded read_limit_rejected [OF chat Inl]] show ?thesis
      by (auto split: if_splits)
  next
    case (Inr raw)
    note valid = chat Inr
    let ?cmd = "read_cmd srv e arguments raw" and ?t = "read_timeout srv arguments"
    obtain res tr1 where first: "run e tr ?cmd ?t = (res, tr1)"
      by (cases "run e tr ?cmd ?t")
    obtain res2 tr2 where second: "run e tr1 (?cmd @ [''--deep-recovery'']) 15 = (res2, tr2)"
      by (cases "run e tr1 (?cmd @ [''--deep-recovery'']) 15")
    show ?thesis
    proof (cases res)
      case (Inl exc)
      from call [unfolded read_first_raises [OF valid first [unfolded Inl]]] show ?thesis
        by simp
    next
      case (Inr r)
      note r = first [unfolded Inr]
      consider (timeout) "timed_out r"
        | (ok) "\<not> timed_out r" "returncode r = 0"
        | (plain) "\<not> timed_out r" "returncode r \<noteq> 0"
            "extract_error_code (stdout r @ [LF] @ stderr r) \<noteq> ''CHAT_NOT_FOUND'' \<or> arg_deep_recovery srv arguments"
        | (retry) "\<not> timed_out r" "returncode r \<noteq> 0"
            "extract_error_code (stdout r @ [LF] @ stderr r) = ''CHAT_NOT_FOUND''"
            "\<not> arg_deep_recovery srv arguments"
        by blast
      then show ?thesis
      proof cases
        case timeout
        from call [unfolded read_first_times_out [OF valid r timeout]] show ?thesis
          by auto
      next
        case ok
        from call [unfolded read_first_succeeds [OF valid r ok]] show ?thesis
          by (auto dest: payload_ok_read_response)
      next
        case plain
        from call [unfolded read_first_fails_no_retry [OF valid r plain(1,2) refl plain(3)]]
        show ?thesis
          by auto
      next
        case retry
        show ?thesis
        proof (cases res2)
          case (Inl exc)
          from call [unfolded read_retry_raises [OF valid r retry second [unfolded Inl]]]
          show ?thesis
            by simp
        next
          case (Inr r2)
          note r2 = second [unfolded Inr]
          show ?thesis
          proof (cases "returncode r2 = 0 \<and> \<not> timed_out r2")
            case True
            from call [unfolded read_retry_succeeds
                [OF valid r retry r2 True [THEN conjunct1] True [THEN conjunct2]]]
            show ?thesis
              by (auto dest: payload_ok_read_response)
          next
            case False
            then have "returncode r2 \<noteq> 0 \<or> timed_out r2"
              by simp
            from call [unfolded read_retry_fails [OF valid r retry r2 this]] show ?thesis
              by auto
          qed
        qed
      qed
    qed
  qed
qed

lemma send_payload_ok:
  assumes "call_kmsg_send srv e tr arguments = (Inr payload, tr')"
  shows "payload_ok payload \<noteq> None"
  using assms
  by (auto simp: call_kmsg_send_def Let_def split: if_splits prod.splits sum.splits)

lemma send_image_payload_ok:
  assumes "call_kmsg_send_image srv e tr arguments = (Inr payload, tr')"
  shows "payload_ok payload \<noteq> None"
  using assms
  by (auto simp: call_kmsg_send_image_def Let_def split: if_splits prod.splits sum.splits)


lemma tool_result_ok:
  assumes "payload_ok payload = Some b"
  shows "tool_result e payload =
           Inr (JObj [(''content'', make_text_content (json_dumps_pretty e payload)),
                      (''isError'', JBool (\<not> b)),
                      (''structuredContent'', payload)])"
proof -
  from assms obtain kv where kv: "payload = JObj kv"
    by (cases payload) (simp_all add: payload_ok_def)
  with assms have "dict_get kv ''ok'' = Some (JBool b)"
    by (auto simp: payload_ok_def split: option.splits json.splits)
  then have "py_bool (dict_get_default kv ''ok'' (JBool False)) = b"
    by (simp add: dict_get_default_def dict_get_def)
  with kv show ?thesis
    by (simp add: tool_result_def)
qed

text \<open>
  Claim C10. Whenever \<^verbatim>\<open>_handle_tools_call\<close> returns a result, the parameters are an
  object, their \<open>arguments\<close> are an object, and the result wraps the payload that the
  handler named by \<open>name\<close> returned for exactly these arguments: the payload has a
  boolean \<open>ok\<close> field, \<open>isError\<close> is true exactly when that field is not true,
  \<open>content\<close> is one text item holding the pretty-printed payload, and
  \<open>structuredContent\<close> is the payload itself.
\<close>

theorem tools_call_is_error:
  assumes call: "handle_tools_call srv e tr arguments = (Inr res, tr1)"
  shows "\<exists>params args payload.
           arguments = JObj params \<and>
           dict_get_default params ''arguments'' (JObj []) = JObj args \<and>
           (dict_get_default params ''name'' JNull = JStr ''kmsg_read'' \<and>
              call_kmsg_read srv e tr args = (Inr payload, tr1) \<or>
            dict_get_default params ''name'' JNull = JStr ''kmsg_send'' \<and>
              call_kmsg_send srv e tr args = (Inr payload, tr1) \<or>
            dict_get_default params ''name'' JNull = JStr ''kmsg_send_image'' \<and>
              call_kmsg_send_image srv e tr args = (Inr payload, tr1)) \<and>
           payload_ok payload \<noteq> None \<and>
           res = JObj [(''content'',
                          JArr [JObj [(''type'', JStr ''text''),
                                      (''text'', JStr (json_dumps_pretty e payload))]]),
                       (''isError'', JBool (payload_ok payload \<noteq> Some True)),
                       (''structuredContent'', payload)]"
proof -
  from call obtain params where params: "arguments = JObj params"
    by (cases arguments) (simp_all add: handle_tools_call_def)
  from call params obtain args where
    args: "dict_get_default params ''arguments'' (JObj []) = JObj args"
    by (cases "dict_get_default params ''arguments'' (JObj [])")
       (simp_all add: handle_tools_call_def Let_def)
  let ?name = "dict_get_default params ''name'' JNull"
  let ?called =
    "if ?name = JStr ''kmsg_read'' then call_kmsg_read srv e tr args
     else if ?name = JStr ''kmsg_send'' then call_kmsg_send srv e tr args
     else if ?name = JStr ''kmsg_send_image'' then call_kmsg_send_image srv e tr args
     else (Inl (MCPError (- 32601) (''Unknown tool: '' @ py_str e ?name)), tr)"
  from call params args have step:
    "(case ?called of
        (Inl exc, tr1) \<Rightarrow> (Inl exc, tr1)
      | (Inr result_obj, tr1) \<Rightarrow> (tool_result e result_obj, tr1)) = (Inr res, tr1)"
    by (simp add: handle_tools_call_def Let_def)
  then obtain payload where called: "?called = (Inr payload, tr1)"
    and wrapped: "tool_result e payload = Inr res"
    by (cases ?called; cases "fst ?called") auto
  have handler: "?name = JStr ''kmsg_read'' \<and> call_kmsg_read srv e tr args = (Inr payload, tr1) \<or>
      ?name = JStr ''kmsg_send'' \<and> call_kmsg_send srv e tr args = (Inr payload, tr1) \<or>
      ?name = JStr ''kmsg_send_image'' \<and> call_kmsg_send_image srv e tr args = (Inr payload, tr1)"
    using called by (simp split: if_splits)
  then have ok: "payload_ok payload \<noteq> None"
    using read_payload_ok send_payload_ok send_image_payload_ok by blast
  then obtain b where b: "payload_ok payload = Some b"
    by (cases "payload_ok payload") simp_all
  from wrapped [unfolded tool_result_ok [OF b]] b
  have res: "res = JObj [(''content'',
                          JArr [JObj [(''type'', JStr ''text''),
                                      (''text'', JStr (json_dumps_pretty e payload))]]),
                       (''isError'', JBool (payload_ok payload \<noteq> Some True)),
                       (''structuredContent'', payload)]"
    by (simp add: make_text_content_def)
  from params args handler ok res show ?thesis
    by (intro exI [of _ params] exI [of _ args] exI [of _ payload] conjI)
qed

theorem tools_call_is_error_witness:
  "\<exists>params args payload.
     JObj [(''name'', JStr ''kmsg_send''),
           (''arguments'', JObj [(''chat'', JStr ''Alice''), (''message'', JStr ''hello''),
                                 (''confirm'', JBool True)])] = JObj params \<and>
     dict_get_default params ''arguments'' (JObj []) = JObj args \<and>
     (dict_get_default params ''name'' JNull = JStr ''kmsg_read'' \<and>
        call_kmsg_read sample_server miss_then_hang [] args = (Inr payload, []) \<or>
      dict_get_default params ''name'' JNull = JStr ''kmsg_send'' \<and>
        call_kmsg_send sample_server miss_then_hang [] args = (Inr payload, []) \<or>
      dict_get_default params ''name'' JNull = JStr ''kmsg_send_image'' \<and>
        call_kmsg_send_image sample_server miss_then_hang [] args = (Inr payload, [])) \<and>
     payload_ok payload \<noteq> None \<and>
     JObj [(''content'', JArr [JObj [(''type'', JStr ''text''), (''text'', JStr ''{}'')]]),
           (''isError'', JBool True),
           (''structuredContent'',
              error_payload ''CONFIRMATION_REQUIRED''
                ''kmsg_send blocked because confirm=true requests pre-send confirmation''
                ''Ask user for explicit approval, then call again with confirm=false (or omit confirm).''
                [] [] 0)] =
     JObj [(''content'',
              JArr [JObj [(''type'', JStr ''text''),
                          (''text'', JStr (json_dumps_pretty miss_then_hang payload))]]),
           (''isError'', JBool (payload_ok payload \<noteq> Some True)),
           (''structuredContent'', payload)]"
proof -
  have call: "handle_tools_call sample_server miss_then_hang []
      (JObj [(''name'', JStr ''kmsg_send''),
             (''arguments'', JObj [(''chat'', JStr ''Alice''), (''message'', JStr ''hello''),
                                   (''confirm'', JBool True)])]) =
    (Inr (JObj [(''content'', JArr [JObj [(''type'', JStr ''text''), (''text'', JStr ''{}'')]]),
                (''isError'', JBool True),
                (''structuredContent'',
                   error_payload ''CONFIRMATION_REQUIRED''
                     ''kmsg_send blocked because confirm=true requests pre-send confirmation''
                     ''Ask user for explicit approval, then call again with confirm=false (or omit confirm).''
                     [] [] 0)]), [])"
    by code_simp
  show ?thesis
    by (rule tools_call_is_error [OF call])
qed

subsection \<open>The dispatcher\<close>

text \<open>
  Claim C3, as the code has it. While the server is not initialized, every method other
  than \<^verbatim>\<open>initialize\<close>, \<^verbatim>\<open>notifications/initialized\<close> and \<^verbatim>\<open>ping\<close> raises the
  protocol error -32002 "Server not initialized" and leaves the server object and the
  history as they were: no tool handler and no process runs. \<^verbatim>\<open>ping\<close> is answered,
  \<^verbatim>\<open>notifications/initialized\<close> is accepted without a response, and
  \<^verbatim>\<open>initialize\<close> sets the flag.
\<close>

theorem uninitialized_gate:
  assumes "\<not> initialized srv"
  shows "(dict_get_default request ''method'' JNull \<noteq> JStr ''initialize'' \<and>
          dict_get_default request ''method'' JNull \<noteq> JStr ''notifications/initialized'' \<and>
          dict_get_default request ''method'' JNull \<noteq> JStr ''ping'' \<longrightarrow>
            handle_request srv e tr request =
              (Inl (MCPError (- 32002) ''Server not initialized''), srv, tr)) \<and>
         (dict_get_default request ''method'' JNull = JStr ''ping'' \<longrightarrow>
            handle_request srv e tr request =
              (Inr (json_rpc_result (dict_get_default request ''id'' JNull) (JObj [])), srv, tr)) \<and>
         (dict_get_default request ''method'' JNull = JStr ''notifications/initialized'' \<longrightarrow>
            handle_request srv e tr request = (Inr JNull, srv, tr)) \<and>
         (dict_get_default request ''method'' JNull = JStr ''initialize'' \<longrightarrow>
            initialized (fst (snd (handle_request srv e tr request))))"
proof (intro conjI impI)
  assume "dict_get_default request ''method'' JNull \<noteq> JStr ''initialize'' \<and>
          dict_get_default request ''method'' JNull \<noteq> JStr ''notifications/initialized'' \<and>
          dict_get_default request ''method'' JNull \<noteq> JStr ''ping''"
  with assms show "handle_request srv e tr request =
      (Inl (MCPError (- 32002) ''Server not initialized''), srv, tr)"
    by (simp add: handle_request_def Let_def)
next
  assume "dict_get_default request ''method'' JNull = JStr ''ping''"
  then show "handle_request srv e tr request =
      (Inr (json_rpc_result (dict_get_default request ''id'' JNull) (JObj [])), srv, tr)"
    by (simp add: handle_request_def Let_def)
next
  assume "dict_get_default request ''method'' JNull = JStr ''notifications/initialized''"
  then show "handle_request srv e tr request = (Inr JNull, srv, tr)"
    by (simp add: handle_request_def Let_def)
next
  assume init: "dict_get_default request ''method'' JNull = JStr ''initialize''"
  obtain res tr1 where ready: "check_ready (srv\<lparr>initialized := True\<rparr>) e tr = (res, tr1)"
    by (cases "check_ready (srv\<lparr>initialized := True\<rparr>) e tr")
  show "initialized (fst (snd (handle_request srv e tr request)))"
  proof (cases res)
    case (Inl exc)
    with init ready show ?thesis
      by (simp add: handle_request_def Let_def)
  next
    case (Inr detail)
    with init ready show ?thesis
      by (cases detail) (simp add: handle_request_def Let_def)
  qed
qed

theorem uninitialized_gate_witness:
  "handle_request sample_server miss_then_hang []
     [(''jsonrpc'', JStr ''2.0''), (''id'', JInt 7), (''method'', JStr ''tools/call''),
      (''params'', JObj [(''name'', JStr ''kmsg_send''),
                         (''arguments'', JObj [(''chat'', JStr ''Alice''), (''message'', JStr ''hello'')])])] =
   (Inl (MCPError (- 32002) ''Server not initialized''), sample_server, [])"
proof -
  let ?request = "[(''jsonrpc'', JStr ''2.0''), (''id'', JInt 7), (''method'', JStr ''tools/call''),
      (''params'', JObj [(''name'', JStr ''kmsg_send''),
                         (''arguments'', JObj [(''chat'', JStr ''Alice''), (''message'', JStr ''hello'')])])]"
  have off: "\<not> initialized sample_server"
    by (simp add: sample_server_def)
  have other: "dict_get_default ?request ''method'' JNull \<noteq> JStr ''initialize'' \<and>
          dict_get_default ?request ''method'' JNull \<noteq> JStr ''notifications/initialized'' \<and>
          dict_get_default ?request ''method'' JNull \<noteq> JStr ''ping''"
    by (simp add: dict_get_default_def)
  show ?thesis
    by (rule uninitialized_gate [OF off, THEN conjunct1, THEN mp, OF other])
qed

text \<open>
  Claim C3 as stated fails: \<^verbatim>\<open>notifications/initialized\<close> is neither
  \<^verbatim>\<open>initialize\<close> nor \<^verbatim>\<open>ping\<close>, and before initialization it raises no error.
\<close>

theorem uninitialized_notification_accepted:
  "\<not> initialized sample_server \<and>
   handle_request sample_server miss_then_hang []
     [(''jsonrpc'', JStr ''2.0''), (''method'', JStr ''notifications/initialized'')] =
   (Inr JNull, sample_server, [])"
  by (simp add: handle_request_def Let_def dict_get_default_def sample_server_def)

subsection \<open>Framing\<close>

lemma is_digit_digit_char: "d < 10 \<Longrightarrow> is_digit (digit_char d)"
  by (simp add: is_digit_def digit_char_def)

lemma digit_val_digit_char: "d < 10 \<Longrightarrow> digit_val (digit_char d) = d"
  by (simp add: digit_val_def digit_char_def)

lemma str_nat_digits: "list_all is_digit (str_nat n)"
proof (induction n rule: str_nat.induct)
  case (1 n)
  show ?case
  proof (cases "n < 10")
    case True
    then show ?thesis
      by (subst str_nat.simps) (simp add: is_digit_digit_char)
  next
    case False
    with "1" show ?thesis
      by (subst str_nat.simps) (simp add: is_digit_digit_char)
  qed
qed

lemma str_nat_nonempty: "str_nat n \<noteq> []"
  by (subst str_nat.simps) simp

lemma digits_value_str_nat: "digits_value acc (str_nat n) = acc * 10 ^ length (str_nat n) + n"
proof (induction n arbitrary: acc rule: str_nat.induct)
  case (1 n)
  show ?case
  proof (cases "n < 10")
    case True
    then show ?thesis
      by (subst (1 2) str_nat.simps) (simp add: digits_value_def digit_val_digit_char)
  next
    case False
    with "1" [of acc] show ?thesis
      by (subst (1 2) str_nat.simps)
         (simp add: digits_value_def digit_val_digit_char algebra_simps)
  qed
qed

lemma readline_line:
  assumes "LF \<notin> set xs"
  shows "readline (xs @ LF # rest) = (xs @ [LF], rest)"
proof -
  from assms have "dropWhile (\<lambda>c. c \<noteq> LF) (xs @ LF # rest) = LF # rest"
    by (induction xs) auto
  moreover from assms have "takeWhile (\<lambda>c. c \<noteq> LF) (xs @ LF # rest) = xs"
    by (induction xs) auto
  ultimately show ?thesis
    by (simp add: readline_def)
qed

lemma py_partition_first:
  assumes "sep \<notin> set xs"
  shows "py_partition sep (xs @ sep # ys) = (xs, [sep], ys)"
  using assms by (induction xs) auto


lemma str_nat_length: "0 < k \<Longrightarrow> n < 10 ^ k \<Longrightarrow> length (str_nat n) \<le> k"
proof (induction n arbitrary: k rule: str_nat.induct)
  case (1 n)
  show ?case
  proof (cases "n < 10")
    case True
    with "1.prems" show ?thesis
      by (subst str_nat.simps) simp
  next
    case False
    with "1.prems" obtain j where k: "k = Suc j" and j: "0 < j"
      by (cases k; cases "k - 1") auto
    from "1.prems" k have "n div 10 < 10 ^ j"
      by (simp add: less_mult_imp_div_less mult.commute)
    with "1.IH" [OF False j] have "length (str_nat (n div 10)) \<le> j" .
    with False k show ?thesis
      by (subst str_nat.simps) simp
  qed
qed

lemma py_int_text_str_nat:
  assumes "n < 10 ^ 640"
  shows "py_int_text e (str_nat n) = Some (int n)"
proof -
  from assms have "length (str_nat n) \<le> 640"
    by (intro str_nat_length) simp_all
  with digits_value_str_nat [of 0 n] show ?thesis
    by (simp add: py_int_text_def str_nat_digits str_nat_nonempty)
qed

lemma lstrip_tokens_stop:
  "find (\<lambda>t. t \<noteq> [] \<and> prefix t s) toks = None \<Longrightarrow> lstrip_tokens toks s = s"
  by (subst lstrip_tokens.simps) simp

lemma lstrip_tokens_drop:
  "find (\<lambda>t. t \<noteq> [] \<and> prefix t s) toks = Some t \<Longrightarrow>
     lstrip_tokens toks s = lstrip_tokens toks (drop (length t) s)"
  by (subst lstrip_tokens.simps) simp

lemma no_token_starts:
  assumes "c \<notin> hd ` set toks"
  shows "find (\<lambda>t. t \<noteq> [] \<and> prefix t (c # xs)) toks = None"
proof -
  have "hd t = c" if "t \<noteq> []" "prefix t (c # xs)" for t
    using that by (cases t) simp_all
  with assms show ?thesis
    by (auto simp: find_None_iff)
qed

lemma whitespace_first_bytes:
  "hd ` set whitespace =
     {CHR 0x09, CHR 0x0A, CHR 0x0B, CHR 0x0C, CHR 0x0D, CHR 0x1C, CHR 0x1D, CHR 0x1E, CHR 0x1F,
      CHR 0x20, CHR 0xC2, CHR 0xE1, CHR 0xE2, CHR 0xE3}"
  by (auto simp: whitespace_def)

lemma whitespace_last_bytes:
  "hd ` set (map rev whitespace) =
     {CHR 0x09, CHR 0x0A, CHR 0x0B, CHR 0x0C, CHR 0x0D, CHR 0x1C, CHR 0x1D, CHR 0x1E, CHR 0x1F,
      CHR 0x20, CHR 0x85, CHR 0xA0, CHR 0x80, CHR 0x81, CHR 0x82, CHR 0x83, CHR 0x84, CHR 0x86,
      CHR 0x87, CHR 0x88, CHR 0x89, CHR 0x8A, CHR 0xA8, CHR 0xA9, CHR 0xAF, CHR 0x9F}"
  by (auto simp: whitespace_def)

lemma digit_not_whitespace:
  assumes "is_digit c"
  shows "c \<notin> hd ` set whitespace" and "c \<notin> hd ` set (map rev whitespace)"
  using assms unfolding whitespace_first_bytes whitespace_last_bytes
  by (auto simp: is_digit_def Let_def)

lemma is_digit_not_special:
  assumes "is_digit c"
  shows "c \<noteq> LF" and "byte_in c 0x00 0x7F"
  using assms by (auto simp: is_digit_def LF_def Let_def byte_in_def)

lemma lstrip_whitespace_keeps:
  assumes "c \<notin> hd ` set toks"
  shows "lstrip_tokens toks (c # xs) = c # xs"
  by (rule lstrip_tokens_stop [OF no_token_starts [OF assms]])

lemma rstrip_line_end:
  "lstrip_tokens (map rev whitespace) (LF # CR # xs) = lstrip_tokens (map rev whitespace) xs"
proof -
  have "find (\<lambda>t. t \<noteq> [] \<and> prefix t (LF # CR # xs)) (map rev whitespace) = Some [LF]"
    by (simp add: whitespace_def LF_def CR_def)
  from lstrip_tokens_drop [OF this]
  have "lstrip_tokens (map rev whitespace) (LF # CR # xs) =
      lstrip_tokens (map rev whitespace) (CR # xs)"
    by simp
  moreover have "find (\<lambda>t. t \<noteq> [] \<and> prefix t (CR # xs)) (map rev whitespace) = Some [CR]"
    by (simp add: whitespace_def CR_def)
  from lstrip_tokens_drop [OF this]
  have "lstrip_tokens (map rev whitespace) (CR # xs) = lstrip_tokens (map rev whitespace) xs"
    by simp
  ultimately show ?thesis
    by simp
qed

lemma lstrip_space:
  "lstrip_tokens whitespace (CHR '' '' # xs) = lstrip_tokens whitespace xs"
proof -
  have "find (\<lambda>t. t \<noteq> [] \<and> prefix t (CHR '' '' # xs)) whitespace = Some '' ''"
    by (simp add: whitespace_def)
  from lstrip_tokens_drop [OF this] show ?thesis
    by simp
qed

lemma py_strip_header_line:
  assumes digits: "list_all is_digit ds" and nonempty: "ds \<noteq> []"
  shows "py_strip (''Content-Length: '' @ ds @ [CR, LF]) = ''Content-Length: '' @ ds"
proof -
  have front: "lstrip_tokens whitespace (''Content-Length: '' @ ds @ [CR, LF]) =
      ''Content-Length: '' @ ds @ [CR, LF]"
    using lstrip_whitespace_keeps [of "CHR ''C''" whitespace]
    by (simp add: whitespace_first_bytes)
  from nonempty obtain d rest where rev: "rev ds = d # rest"
    by (cases "rev ds") simp_all
  then have "d \<in> set ds"
    by (metis list.set_intros(1) set_rev)
  with digits have "is_digit d"
    by (simp add: list_all_iff)
  then have keep: "lstrip_tokens (map rev whitespace) (d # rest @ rev ''Content-Length: '') =
      d # rest @ rev ''Content-Length: ''"
    by (intro lstrip_whitespace_keeps digit_not_whitespace)
  have "lstrip_tokens (map rev whitespace) (rev (''Content-Length: '' @ ds @ [CR, LF])) =
      lstrip_tokens (map rev whitespace) (rev ds @ rev ''Content-Length: '')"
    using rstrip_line_end [of "rev ds @ rev ''Content-Length: ''"] by simp
  also have "\<dots> = rev ds @ rev ''Content-Length: ''"
    using keep rev by simp
  finally show ?thesis
    unfolding py_strip_def front by simp
qed

lemma py_strip_header_value:
  assumes digits: "list_all is_digit ds" and nonempty: "ds \<noteq> []"
  shows "py_strip (CHR '' '' # ds) = ds"
proof -
  from nonempty obtain c cs where ds: "ds = c # cs"
    by (cases ds) simp_all
  with digits have "is_digit c"
    by simp
  then have "lstrip_tokens whitespace (c # cs) = c # cs"
    by (intro lstrip_whitespace_keeps digit_not_whitespace)
  with ds have front: "lstrip_tokens whitespace (CHR '' '' # ds) = ds"
    by (simp add: lstrip_space)
  from nonempty obtain d rest where rev: "rev ds = d # rest"
    by (cases "rev ds") simp_all
  then have "d \<in> set ds"
    by (metis list.set_intros(1) set_rev)
  with digits have "is_digit d"
    by (simp add: list_all_iff)
  then have "lstrip_tokens (map rev whitespace) (d # rest) = d # rest"
    by (intro lstrip_whitespace_keeps digit_not_whitespace)
  with rev have "lstrip_tokens (map rev whitespace) (rev ds) = rev ds"
    by simp
  then show ?thesis
    unfolding py_strip_def front by simp
qed

lemma utf8_valid_ascii: "list_all (\<lambda>c. byte_in c 0x00 0x7F) s \<Longrightarrow> utf8_valid s"
  by (induction s rule: utf8_valid.induct) simp_all

lemma header_line_ascii:
  assumes "list_all is_digit ds"
  shows "utf8_valid (''Content-Length: '' @ ds @ [CR, LF])"
proof (rule utf8_valid_ascii)
  from assms have "list_all (\<lambda>c. byte_in c 0x00 0x7F) ds"
    by (auto simp: list_all_iff is_digit_not_special)
  then show "list_all (\<lambda>c. byte_in c 0x00 0x7F) (''Content-Length: '' @ ds @ [CR, LF])"
    by (simp add: byte_in_def CR_def LF_def)
qed

lemma header_name: "py_lower (py_strip ''Content-Length'') = ''content-length''"
  by code_simp

lemma read_headers_blank: "read_headers e headers (CR # LF # rest) = (Some headers, rest)"
proof -
  have "readline (CR # LF # rest) = ([CR, LF], rest)"
    using readline_line [of "[CR]" rest] by (simp add: CR_def LF_def)
  then show ?thesis
    by (subst read_headers.simps) (simp add: Let_def)
qed

lemma read_headers_content_length:
  assumes digits: "list_all is_digit ds" and nonempty: "ds \<noteq> []"
  shows "read_headers e headers (''Content-Length: '' @ ds @ CR # LF # rest) =
           read_headers e (headers(''content-length'' \<mapsto> ds)) rest"
proof -
  let ?decoded = "''Content-Length: '' @ ds"
  let ?line = "''Content-Length: '' @ ds @ [CR, LF]"
  from digits have no_lf: "LF \<notin> set ds"
    by (auto simp: list_all_iff dest: is_digit_not_special(1))
  have "readline ((?decoded @ [CR]) @ LF # rest) = ((?decoded @ [CR]) @ [LF], rest)"
    using no_lf by (intro readline_line) (simp add: CR_def LF_def)
  then have line: "readline (''Content-Length: '' @ ds @ CR # LF # rest) = (?line, rest)"
    by simp
  have utf8: "decode_utf8_replace e ?line = ?line"
    unfolding decode_utf8_replace_def by (rule if_P) (rule header_line_ascii [OF digits])
  have decoded: "py_strip ?line = ?decoded"
    by (rule py_strip_header_line [OF digits nonempty])
  have "py_partition (CHR '':'') (''Content-Length'' @ CHR '':'' # CHR '' '' # ds) =
      (''Content-Length'', '':'', CHR '' '' # ds)"
    by (intro py_partition_first) simp
  then have parts: "py_partition (CHR '':'') ?decoded = (''Content-Length'', '':'', CHR '' '' # ds)"
    by simp
  have val: "py_strip (CHR '' '' # ds) = ds"
    by (rule py_strip_header_value [OF digits nonempty])
  have not_blank: "?line \<noteq> []" "?line \<noteq> [CR, LF]" "?line \<noteq> [LF]" "?decoded \<noteq> []"
    by (simp_all add: CR_def LF_def)
  show ?thesis
    by (subst read_headers.simps)
       (simp only: line utf8 decoded parts val header_name not_blank Let_def fst_conv snd_conv
          if_False simp_thms list.distinct)
qed

lemma write_message_bytes:
  assumes "utf8_valid (json_dumps e v)"
  shows "write_message e v =
     Inr (''Content-Length: '' @ str_nat (length (json_dumps e v)) @
            CR # LF # CR # LF # json_dumps e v)"
  using assms by (simp add: write_message_def encode_utf8_def str_int_def)

lemma read_message_framed:
  assumes "body \<noteq> []" and "utf8_valid body" and "length body < 10 ^ 640"
  shows "read_message e (''Content-Length: '' @ str_nat (length body) @ CR # LF # CR # LF # body @ rest) =
           (Inr (case json_loads e body of None \<Rightarrow> JNull | Some w \<Rightarrow> w), rest)"
proof -
  let ?ds = "str_nat (length body)"
  have "read_headers e Map.empty (''Content-Length: '' @ ?ds @ CR # LF # CR # LF # body @ rest) =
      read_headers e (Map.empty(''content-length'' \<mapsto> ?ds)) (CR # LF # body @ rest)"
    by (rule read_headers_content_length [OF str_nat_digits str_nat_nonempty])
  then have headers:
    "read_headers e Map.empty (''Content-Length: '' @ ?ds @ CR # LF # CR # LF # body @ rest) =
      (Some (Map.empty(''content-length'' \<mapsto> ?ds)), body @ rest)"
    by (simp only: read_headers_blank)
  have content_length: "py_int_text e ?ds = Some (int (length body))"
    by (rule py_int_text_str_nat [OF assms(3)])
  from assms(1,2) show ?thesis
    unfolding read_message_def headers
    by (simp add: content_length buffer_read_def decode_utf8_def split: option.splits)
qed

text \<open>
  Claim C8, as the code has it. For a value whose JSON text can be encoded as UTF-8 (it
  holds no lone surrogate), \<^verbatim>\<open>_write_message\<close> writes \<^verbatim>\<open>Content-Length: N\<close>, a blank
  line and the encoded body, \<open>N\<close> being the body's length in bytes. Reading these bytes
  back with \<^verbatim>\<open>_read_message\<close>, whatever follows them on the stream, passes exactly the
  encoded body to \<^verbatim>\<open>json.loads\<close> and leaves the rest of the stream unread; with a JSON
  codec that decodes what it encodes, the message read is the value written. The encoded
  text of a value is never empty, and its length has far fewer than 640 digits: the other
  two hypotheses.
\<close>

theorem framing_round_trip:
  assumes encodable: "utf8_valid (json_dumps e v)"
    and nonempty: "json_dumps e v \<noteq> []"
    and size: "length (json_dumps e v) < 10 ^ 640"
  shows "write_message e v =
           Inr (''Content-Length: '' @ str_nat (length (json_dumps e v)) @ [CR, LF, CR, LF] @
                json_dumps e v) \<and>
         read_message e
           ((''Content-Length: '' @ str_nat (length (json_dumps e v)) @ [CR, LF, CR, LF] @
             json_dumps e v) @ rest) =
           (Inr (case json_loads e (json_dumps e v) of None \<Rightarrow> JNull | Some w \<Rightarrow> w), rest) \<and>
         (json_loads e (json_dumps e v) = Some v \<longrightarrow>
            read_message e
              ((''Content-Length: '' @ str_nat (length (json_dumps e v)) @ [CR, LF, CR, LF] @
                json_dumps e v) @ rest) = (Inr v, rest))"
proof -
  let ?body = "json_dumps e v"
  let ?written = "''Content-Length: '' @ str_nat (length ?body) @ [CR, LF, CR, LF] @ ?body"
  have bytes: "?written @ rest =
      ''Content-Length: '' @ str_nat (length ?body) @ CR # LF # CR # LF # ?body @ rest"
    by simp
  have roundtrip: "read_message e (?written @ rest) =
      (Inr (case json_loads e ?body of None \<Rightarrow> JNull | Some w \<Rightarrow> w), rest)"
    unfolding bytes by (rule read_message_framed [OF nonempty encodable size])
  show ?thesis
  proof (intro conjI impI)
    show "write_message e v = Inr ?written"
      by (simp add: write_message_bytes [OF encodable])
    show "read_message e (?written @ rest) =
        (Inr (case json_loads e ?body of None \<Rightarrow> JNull | Some w \<Rightarrow> w), rest)"
      by (rule roundtrip)
    assume "json_loads e ?body = Some v"
    with roundtrip show "read_message e (?written @ rest) = (Inr v, rest)"
      by simp
  qed
qed

theorem framing_round_trip_witness:
  "write_message miss_then_hang (JObj []) =
     Inr (''Content-Length: '' @ str_nat (length (json_dumps miss_then_hang (JObj []))) @
          [CR, LF, CR, LF] @ json_dumps miss_then_hang (JObj [])) \<and>
   read_message miss_then_hang
     ((''Content-Length: '' @ str_nat (length (json_dumps miss_then_hang (JObj []))) @
       [CR, LF, CR, LF] @ json_dumps miss_then_hang (JObj [])) @ ''Content-Length: 2'') =
     (Inr (JObj []), ''Content-Length: 2'')"
proof -
  have encodable: "utf8_valid (json_dumps miss_then_hang (JObj []))"
    by code_simp
  have nonempty: "json_dumps miss_then_hang (JObj []) \<noteq> []"
    by code_simp
  have len: "length (json_dumps miss_then_hang (JObj [])) = 2"
    by code_simp
  have "(2::nat) < 10 ^ 1"
    by simp
  also have "(10::nat) ^ 1 \<le> 10 ^ 640"
    by (rule power_increasing) simp_all
  finally have size: "length (json_dumps miss_then_hang (JObj [])) < 10 ^ 640"
    unfolding len .
  have same: "json_loads miss_then_hang (json_dumps miss_then_hang (JObj [])) = Some (JObj [])"
    by code_simp
  show ?thesis
  proof (rule conjI)
    show "write_message miss_then_hang (JObj []) =
        Inr (''Content-Length: '' @ str_nat (length (json_dumps miss_then_hang (JObj []))) @
             [CR, LF, CR, LF] @ json_dumps miss_then_hang (JObj []))"
      by (rule framing_round_trip [OF encodable nonempty size, THEN conjunct1])
    show "read_message miss_then_hang
        ((''Content-Length: '' @ str_nat (length (json_dumps miss_then_hang (JObj []))) @
          [CR, LF, CR, LF] @ json_dumps miss_then_hang (JObj [])) @ ''Content-Length: 2'') =
        (Inr (JObj []), ''Content-Length: 2'')"
      by (rule framing_round_trip [OF encodable nonempty size, THEN conjunct2, THEN conjunct2,
            THEN mp, OF same])
  qed
qed

text \<open>
  Claim C8 as stated fails: a \<^verbatim>\<open>ping\<close> whose \<^verbatim>\<open>id\<close> is a lone surrogate is answered
  with a reply that echoes the \<^verbatim>\<open>id\<close>; its JSON text is not valid UTF-8, and
  \<^verbatim>\<open>_write_message\<close> raises UnicodeEncodeError instead of writing a frame, so there is
  nothing to read back.
\<close>

theorem framing_surrogate_not_written:
  "handle_request sample_server surrogate_env []
     [(''jsonrpc'', JStr ''2.0''), (''id'', JStr lone_surrogate), (''method'', JStr ''ping'')] =
     (Inr surrogate_reply, sample_server, []) \<and>
   \<not> utf8_valid (json_dumps surrogate_env surrogate_reply) \<and>
   write_message surrogate_env surrogate_reply = Inl ValueError"
  by code_simp

end
